theory Spec2Isabelle
  imports Main
begin

section \<open>The contact manager of dz12.py\<close>

text \<open>
  A shallow embedding of \<^verbatim>\<open>dz12.py\<close>: the validated fields \<^verbatim>\<open>Phone\<close> and
  \<^verbatim>\<open>Birthday\<close>, the class \<^verbatim>\<open>Record\<close>, the class \<^verbatim>\<open>AddressBook\<close>, the
  decorator \<^verbatim>\<open>input_error\<close> with the commands it wraps, and the loop of
  \<^verbatim>\<open>main\<close>.

  Python strings are modelled as \<^typ>\<open>string\<close>: a character is one of the code
  points 0 to 255 (Latin-1), and text with a code point beyond 255 is outside the model.
  On these characters \<^verbatim>\<open>str.isdigit\<close>, \<^verbatim>\<open>str.isspace\<close>, \<^verbatim>\<open>str.lower\<close>, the
  pattern \<^verbatim>\<open>\d\<close> and \<^verbatim>\<open>int\<close> are as Python has them. A value that may be
  \<^verbatim>\<open>None\<close> is an \<^typ>\<open>'a option\<close>. A raised exception is the left injection of a
  sum.
\<close>

subsection \<open>Exceptions\<close>

datatype exn =
    ValueError string
  | TypeError string
  | IndexError string
  | KeyError string
  | OSError string
  | JSONDecodeError string
  | ZeroDivisionError string
  | EOFError

text \<open>\<^verbatim>\<open>str(e)\<close> for an exception that carries a message.\<close>

fun str_exn :: "exn \<Rightarrow> string" where
  "str_exn (ValueError m) = m"
| "str_exn (TypeError m) = m"
| "str_exn (IndexError m) = m"
| "str_exn (KeyError m) = m"
| "str_exn (OSError m) = m"
| "str_exn (JSONDecodeError m) = m"
| "str_exn (ZeroDivisionError m) = m"
| "str_exn EOFError = []"

subsection \<open>Strings\<close>

text \<open>The decimal digits: \<^verbatim>\<open>str.isdecimal\<close> of a character, the pattern \<^verbatim>\<open>\d\<close>, and
  the digits \<^verbatim>\<open>int\<close> reads.\<close>

definition isdecimal_char :: "char \<Rightarrow> bool" where
  "isdecimal_char c = (c \<in> set ''0123456789'')"

text \<open>\<^verbatim>\<open>str.isdigit\<close> of a character: the decimal digits and the superscripts two,
  three and one (U+00B2, U+00B3, U+00B9), which are digits and not decimal.\<close>

definition isdigit_char :: "char \<Rightarrow> bool" where
  "isdigit_char c = (isdecimal_char c \<or> c \<in> set [CHR 0xB2, CHR 0xB3, CHR 0xB9])"

text \<open>\<^verbatim>\<open>str.isdigit\<close>: false of the empty string.\<close>

definition isdigit :: "string \<Rightarrow> bool" where
  "isdigit s = (s \<noteq> [] \<and> list_all isdigit_char s)"

definition digit_val :: "char \<Rightarrow> nat" where
  "digit_val c = of_char c - 48"

text \<open>An f-string puts a name between apostrophes.\<close>

definition quoted :: "string \<Rightarrow> string" where
  "quoted s = CHR 0x27 # s @ [CHR 0x27]"

text \<open>\<^verbatim>\<open>str.startswith\<close>.\<close>

fun startswith :: "string \<Rightarrow> string \<Rightarrow> bool" where
  "startswith s [] = True"
| "startswith [] (p # ps) = False"
| "startswith (c # cs) (p # ps) = (c = p \<and> startswith cs ps)"

text \<open>\<^verbatim>\<open>q in s\<close> on strings: \<open>q\<close> occurs in \<open>s\<close> as a contiguous block.\<close>

fun str_contains :: "string \<Rightarrow> string \<Rightarrow> bool" where
  "str_contains [] q = (q = [])"
| "str_contains (c # cs) q = (startswith (c # cs) q \<or> str_contains cs q)"

subsection \<open>Phone\<close>

text \<open>
  \<^verbatim>\<open>Phone.validate_phone(phone)\<close> is \<^verbatim>\<open>len(phone) == 10 and phone.isdigit()\<close>;
  \<^verbatim>\<open>len(None)\<close> raises \<^verbatim>\<open>TypeError\<close>.
\<close>

definition none_has_no_len :: string where
  "none_has_no_len = ''object of type '' @ quoted ''NoneType'' @ '' has no len()''"

fun validate_phone :: "string option \<Rightarrow> exn + bool" where
  "validate_phone None = Inl (TypeError none_has_no_len)"
| "validate_phone (Some phone) = Inr (length phone = 10 \<and> isdigit phone)"

definition phone_msg :: string where
  "phone_msg = ''Phone number must be 10 digits''"

text \<open>The setter of \<^verbatim>\<open>Phone.value\<close>: \<^verbatim>\<open>None\<close> is stored unchecked.\<close>

fun Phone_set :: "string option \<Rightarrow> exn + string option" where
  "Phone_set None = Inr None"
| "Phone_set (Some phone) =
     (case validate_phone (Some phone) of
        Inl e \<Rightarrow> Inl e
      | Inr ok \<Rightarrow> if ok then Inr (Some phone) else Inl (ValueError phone_msg))"

subsection \<open>Calendar dates, as the module \<^verbatim>\<open>datetime\<close> has them\<close>

text \<open>
  A \<^verbatim>\<open>datetime\<close> is a proleptic Gregorian date with the time of day, here in
  microseconds since midnight. \<^verbatim>\<open>datetime(y, m, d)\<close> is midnight of that day and
  raises \<^verbatim>\<open>ValueError\<close> when the date does not exist.
\<close>

record datetime =
  year :: nat
  month :: nat
  day :: nat
  usec :: nat

definition is_leap :: "nat \<Rightarrow> bool" where
  "is_leap y = (y mod 4 = 0 \<and> (y mod 100 \<noteq> 0 \<or> y mod 400 = 0))"

definition days_in_month :: "nat \<Rightarrow> nat \<Rightarrow> nat" where
  "days_in_month y m =
     (if m = 2 \<and> is_leap y then 29
      else [0, 31, 28, 31, 30, 31, 30, 31, 31, 30, 31, 30, 31] ! m)"

definition days_before_year :: "nat \<Rightarrow> int" where
  "days_before_year y =
     (let p = int y - 1 in p * 365 + p div 4 - p div 100 + p div 400)"

definition days_before_month :: "nat \<Rightarrow> nat \<Rightarrow> int" where
  "days_before_month y m =
     [0, 0, 31, 59, 90, 120, 151, 181, 212, 243, 273, 304, 334] ! m
       + (if m > 2 \<and> is_leap y then 1 else 0)"

text \<open>\<^verbatim>\<open>date.toordinal\<close>: day 1 is 1 January of year 1.\<close>

definition ymd2ord :: "nat \<Rightarrow> nat \<Rightarrow> nat \<Rightarrow> int" where
  "ymd2ord y m d = days_before_year y + days_before_month y m + int d"

definition day_range_msg :: string where
  "day_range_msg = ''day is out of range for month''"

definition datetime_new :: "nat \<Rightarrow> nat \<Rightarrow> nat \<Rightarrow> exn + datetime" where
  "datetime_new y m d =
     (if \<not> (1 \<le> y \<and> y \<le> 9999) then Inl (ValueError ''year is out of range'')
      else if \<not> (1 \<le> m \<and> m \<le> 12) then Inl (ValueError ''month must be in 1..12'')
      else if \<not> (1 \<le> d \<and> d \<le> days_in_month y m) then Inl (ValueError day_range_msg)
      else Inr \<lparr>year = y, month = m, day = d, usec = 0\<rparr>)"

text \<open>The order of two datetimes, and \<^verbatim>\<open>(a - b).days\<close>: the difference in whole
  days, rounded down.\<close>

definition dt_less :: "datetime \<Rightarrow> datetime \<Rightarrow> bool" where
  "dt_less a b =
     (year a < year b \<or> (year a = year b \<and>
       (month a < month b \<or> (month a = month b \<and>
         (day a < day b \<or> (day a = day b \<and> usec a < usec b))))))"

definition usec_per_day :: int where
  "usec_per_day = 86400000000"

definition dt_usecs :: "datetime \<Rightarrow> int" where
  "dt_usecs a = ymd2ord (year a) (month a) (day a) * usec_per_day + int (usec a)"

definition diff_days :: "datetime \<Rightarrow> datetime \<Rightarrow> int" where
  "diff_days a b = (dt_usecs a - dt_usecs b) div usec_per_day"

subsection \<open>\<^verbatim>\<open>datetime.strptime(s, "%Y-%m-%d")\<close>\<close>

text \<open>
  The format is compiled to the regular expression
  \<^verbatim>\<open>(\d\d\d\d)-(1[0-2]|0[1-9]|[1-9])-(3[0-1]|[1-2]\d|0[1-9]|[1-9]| [1-9])\<close>, matched
  at the start of the string; \<^verbatim>\<open>ValueError\<close> is raised when it does not match, when
  text remains after the match, and when the three numbers are not a date. Each function
  below takes the first alternative that matches, as the matcher does: a month matched
  by a later alternative is one character, and then the hyphen would have to match the
  digit the earlier alternative took.
\<close>

fun re_Y :: "string \<Rightarrow> (nat \<times> string) option" where
  "re_Y (a # b # c # d # rest) =
     (if isdecimal_char a \<and> isdecimal_char b \<and> isdecimal_char c \<and> isdecimal_char d
      then Some (1000 * digit_val a + 100 * digit_val b + 10 * digit_val c + digit_val d, rest)
      else None)"
| "re_Y _ = None"

fun re_m :: "string \<Rightarrow> (nat \<times> string) option" where
  "re_m [] = None"
| "re_m [a] = (if a \<in> set ''123456789'' then Some (digit_val a, []) else None)"
| "re_m (a # b # rest) =
     (if a = CHR ''1'' \<and> b \<in> set ''012'' then Some (10 + digit_val b, rest)
      else if a = CHR ''0'' \<and> b \<in> set ''123456789'' then Some (digit_val b, rest)
      else if a \<in> set ''123456789'' then Some (digit_val a, b # rest)
      else None)"

fun re_d :: "string \<Rightarrow> (nat \<times> string) option" where
  "re_d [] = None"
| "re_d [a] = (if a \<in> set ''123456789'' then Some (digit_val a, []) else None)"
| "re_d (a # b # rest) =
     (if a = CHR ''3'' \<and> b \<in> set ''01'' then Some (30 + digit_val b, rest)
      else if a \<in> set ''12'' \<and> isdecimal_char b then Some (10 * digit_val a + digit_val b, rest)
      else if a = CHR ''0'' \<and> b \<in> set ''123456789'' then Some (digit_val b, rest)
      else if a \<in> set ''123456789'' then Some (digit_val a, b # rest)
      else if a = CHR '' '' \<and> b \<in> set ''123456789'' then Some (digit_val b, rest)
      else None)"

fun hyphen :: "string \<Rightarrow> string option" where
  "hyphen (c # cs) = (if c = CHR ''-'' then Some cs else None)"
| "hyphen [] = None"

definition no_match_msg :: string where
  "no_match_msg = ''time data does not match format''"

definition strptime :: "string \<Rightarrow> exn + datetime" where
  "strptime s =
     (case re_Y s of
        None \<Rightarrow> Inl (ValueError no_match_msg)
      | Some (y, s1) \<Rightarrow>
     (case hyphen s1 of
        None \<Rightarrow> Inl (ValueError no_match_msg)
      | Some s2 \<Rightarrow>
     (case re_m s2 of
        None \<Rightarrow> Inl (ValueError no_match_msg)
      | Some (m, s3) \<Rightarrow>
     (case hyphen s3 of
        None \<Rightarrow> Inl (ValueError no_match_msg)
      | Some s4 \<Rightarrow>
     (case re_d s4 of
        None \<Rightarrow> Inl (ValueError no_match_msg)
      | Some (d, s5) \<Rightarrow>
          if s5 \<noteq> [] then Inl (ValueError ''unconverted data remains'')
          else datetime_new y m d)))))"

subsection \<open>\<^verbatim>\<open>str.split(sep)\<close> and \<^verbatim>\<open>int(str)\<close>\<close>

fun split_on :: "char \<Rightarrow> string \<Rightarrow> string list" where
  "split_on sep [] = [[]]"
| "split_on sep (c # cs) =
     (if c = sep then [] # split_on sep cs
      else (case split_on sep cs of p # ps \<Rightarrow> (c # p) # ps | [] \<Rightarrow> [[c]]))"

text \<open>\<^verbatim>\<open>str.isspace\<close> of a character, which is where \<^verbatim>\<open>str.split()\<close> cuts; and the
  white space \<^verbatim>\<open>int\<close> strips, which leaves out U+001C to U+001F.\<close>

definition isspace_char :: "char \<Rightarrow> bool" where
  "isspace_char c =
     (c \<in> set [CHR 0x09, CHR 0x0A, CHR 0x0B, CHR 0x0C, CHR 0x0D,
                CHR 0x1C, CHR 0x1D, CHR 0x1E, CHR 0x1F, CHR 0x20, CHR 0x85, CHR 0xA0])"

definition int_space_char :: "char \<Rightarrow> bool" where
  "int_space_char c =
     (c \<in> set [CHR 0x09, CHR 0x0A, CHR 0x0B, CHR 0x0C, CHR 0x0D, CHR 0x20, CHR 0x85, CHR 0xA0])"

definition int_strip :: "string \<Rightarrow> string" where
  "int_strip s = rev (dropWhile int_space_char (rev (dropWhile int_space_char s)))"

text \<open>The digits of an integer literal; one underscore may stand between two digits.\<close>

fun int_digits :: "nat \<Rightarrow> string \<Rightarrow> nat option" where
  "int_digits acc [] = None"
| "int_digits acc [c] = (if isdecimal_char c then Some (10 * acc + digit_val c) else None)"
| "int_digits acc (c # d # cs) =
     (if \<not> isdecimal_char c then None
      else if d = CHR ''_'' then int_digits (10 * acc + digit_val c) cs
      else int_digits (10 * acc + digit_val c) (d # cs))"

text \<open>\<^verbatim>\<open>int(s)\<close>: \<open>None\<close> stands for the \<^verbatim>\<open>ValueError\<close> it raises.\<close>

definition py_int :: "string \<Rightarrow> int option" where
  "py_int s =
     (case int_strip s of
        [] \<Rightarrow> None
      | c # cs \<Rightarrow>
          if c = CHR ''-'' then map_option (\<lambda>n. - int n) (int_digits 0 cs)
          else if c = CHR ''+'' then map_option int (int_digits 0 cs)
          else map_option int (int_digits 0 (c # cs)))"

subsection \<open>Birthday\<close>

text \<open>
  \<^verbatim>\<open>Birthday.validate_birthday\<close>: \<^verbatim>\<open>strptime\<close> first, then the three numbers of
  \<^verbatim>\<open>map(int, birthday.split("-"))\<close> are compared with the bounds; every
  \<^verbatim>\<open>ValueError\<close> (of \<^verbatim>\<open>strptime\<close>, of \<^verbatim>\<open>int\<close>, of the unpacking into three
  names) gives \<^verbatim>\<open>False\<close>.
\<close>

definition validate_birthday :: "string \<Rightarrow> bool" where
  "validate_birthday b =
     (case strptime b of
        Inl e \<Rightarrow> False
      | Inr dt \<Rightarrow>
          (case map py_int (split_on CHR ''-'' b) of
             [Some y, Some m, Some d] \<Rightarrow>
               1900 \<le> y \<and> y \<le> 2100 \<and> 1 \<le> m \<and> m \<le> 12 \<and> 1 \<le> d \<and> d \<le> 31
           | _ \<Rightarrow> False))"

definition birthday_msg :: string where
  "birthday_msg = ''Invalid birthday format. Use YYYY-MM-DD''"

text \<open>The setter of \<^verbatim>\<open>Birthday.value\<close>.\<close>

fun Birthday_set :: "string option \<Rightarrow> exn + string option" where
  "Birthday_set None = Inr None"
| "Birthday_set (Some b) =
     (if validate_birthday b then Inr (Some b) else Inl (ValueError birthday_msg))"


subsection \<open>Dates written as \<^verbatim>\<open>YYYY-MM-DD\<close>\<close>

text \<open>
  The strings the properties of \<^verbatim>\<open>validate_birthday\<close> range over: four digits of
  the year, two of the month and two of the day, with leading zeros
  (\<^verbatim>\<open>"%04d-%02d-%02d"\<close>).
\<close>

definition digit_char :: "nat \<Rightarrow> char" where
  "digit_char n = ''0123456789'' ! n"

definition pad2 :: "nat \<Rightarrow> string" where
  "pad2 n = [digit_char (n div 10 mod 10), digit_char (n mod 10)]"

definition pad4 :: "nat \<Rightarrow> string" where
  "pad4 n = [digit_char (n div 1000 mod 10), digit_char (n div 100 mod 10),
             digit_char (n div 10 mod 10), digit_char (n mod 10)]"

definition iso_date :: "nat \<Rightarrow> nat \<Rightarrow> nat \<Rightarrow> string" where
  "iso_date y m d = pad4 y @ ''-'' @ pad2 m @ ''-'' @ pad2 d"

subsection \<open>Record\<close>

text \<open>
  A \<^verbatim>\<open>Record\<close> holds the value of its \<^verbatim>\<open>Name\<close>, the values of its \<^verbatim>\<open>Phone\<close>
  objects in the order of the list \<^verbatim>\<open>phones\<close>, and the value of its \<^verbatim>\<open>Birthday\<close>.
  A method that mutates the record returns the new record.
\<close>

record Record =
  name :: string
  phones :: "string option list"
  birthday :: "string option"

text \<open>\<^verbatim>\<open>Record.__init__\<close>: \<^verbatim>\<open>Birthday(birthday)\<close> runs the setter.\<close>

definition Record_init :: "string \<Rightarrow> string option \<Rightarrow> exn + Record" where
  "Record_init nm bd =
     (case Birthday_set bd of
        Inl e \<Rightarrow> Inl e
      | Inr b \<Rightarrow> Inr \<lparr>name = nm, phones = [], birthday = b\<rparr>)"

fun add_phone :: "Record \<Rightarrow> string option \<Rightarrow> exn + Record" where
  "add_phone r None = Inr r"
| "add_phone r (Some phone) =
     (case validate_phone (Some phone) of
        Inl e \<Rightarrow> Inl e
      | Inr ok \<Rightarrow>
          if ok then
            (case Phone_set (Some phone) of
               Inl e \<Rightarrow> Inl e
             | Inr v \<Rightarrow> Inr (r\<lparr>phones := phones r @ [v]\<rparr>))
          else Inl (ValueError phone_msg))"

definition remove_phone :: "Record \<Rightarrow> string option \<Rightarrow> Record" where
  "remove_phone r number = r\<lparr>phones := remove1 number (phones r)\<rparr>"

text \<open>The index of the first phone whose value equals \<open>v\<close>: the loops of
  \<^verbatim>\<open>edit_phone\<close> and \<^verbatim>\<open>find_phone\<close>.\<close>

fun find_first :: "'a \<Rightarrow> 'a list \<Rightarrow> nat option" where
  "find_first v [] = None"
| "find_first v (x # xs) = (if x = v then Some 0 else map_option Suc (find_first v xs))"

text \<open>\<^verbatim>\<open>str(v)\<close> of a value that may be \<^verbatim>\<open>None\<close>, as an f-string prints it.\<close>

fun str_opt :: "string option \<Rightarrow> string" where
  "str_opt None = ''None''"
| "str_opt (Some s) = s"

definition not_found_msg :: "string \<Rightarrow> string" where
  "not_found_msg nm = ''Contact '' @ quoted nm @ '' not found''"

definition edit_phone :: "Record \<Rightarrow> string option \<Rightarrow> string option \<Rightarrow> exn + Record" where
  "edit_phone r old new_phone =
     (case find_first old (phones r) of
        None \<Rightarrow> Inl (ValueError (not_found_msg (str_opt old)))
      | Some i \<Rightarrow>
          (case (case new_phone of None \<Rightarrow> Inr True | Some p \<Rightarrow> validate_phone (Some p)) of
             Inl e \<Rightarrow> Inl e
           | Inr ok \<Rightarrow>
               if \<not> ok then Inl (ValueError phone_msg)
               else (case Phone_set new_phone of
                       Inl e \<Rightarrow> Inl e
                     | Inr v \<Rightarrow> Inr (r\<lparr>phones := (phones r)[i := v]\<rparr>))))"

definition Record_find_phone :: "Record \<Rightarrow> string option \<Rightarrow> nat option" where
  "Record_find_phone r number = find_first number (phones r)"

text \<open>
  \<^verbatim>\<open>days_to_birthday\<close>; \<open>today\<close> is what \<^verbatim>\<open>datetime.now()\<close> returns. The test
  \<^verbatim>\<open>if self.birthday.value\<close> is false of \<^verbatim>\<open>None\<close> and of the empty string.
\<close>

definition days_to_birthday :: "datetime \<Rightarrow> Record \<Rightarrow> exn + int option" where
  "days_to_birthday today r =
     (case birthday r of
        None \<Rightarrow> Inr None
      | Some b \<Rightarrow>
          if b = [] then Inr None
          else
            (case strptime b of
               Inl e \<Rightarrow> Inl e
             | Inr birth_date \<Rightarrow>
            (case datetime_new (year today) (month birth_date) (day birth_date) of
               Inl e \<Rightarrow> Inl e
             | Inr next_birthday \<Rightarrow>
                 if dt_less next_birthday today then
                   (case datetime_new (year today + 1) (month birth_date) (day birth_date) of
                      Inl e \<Rightarrow> Inl e
                    | Inr next_birthday' \<Rightarrow> Inr (Some (diff_days next_birthday' today)))
                 else Inr (Some (diff_days next_birthday today)))))"

text \<open>\<^verbatim>\<open>sep.join(xs)\<close>, and the decimal numeral of a natural number.\<close>

fun join :: "string \<Rightarrow> string list \<Rightarrow> string" where
  "join sep [] = []"
| "join sep [x] = x"
| "join sep (x # y # xs) = x @ sep @ join sep (y # xs)"

fun str_nat :: "nat \<Rightarrow> string" where
  "str_nat n = (if n < 10 then [digit_char n] else str_nat (n div 10) @ [digit_char (n mod 10)])"

declare str_nat.simps [simp del]

text \<open>\<^verbatim>\<open>Record.__str__\<close>: \<^verbatim>\<open>join\<close> raises \<^verbatim>\<open>TypeError\<close> on a phone value that is
  \<^verbatim>\<open>None\<close>.\<close>

definition join_none_msg :: "nat \<Rightarrow> string" where
  "join_none_msg i = ''sequence item '' @ str_nat i @ '': expected str instance, NoneType found''"

definition Record_str :: "Record \<Rightarrow> exn + string" where
  "Record_str r =
     (case those (phones r) of
        None \<Rightarrow> Inl (TypeError (join_none_msg (case find_first None (phones r) of Some i \<Rightarrow> i | None \<Rightarrow> 0)))
      | Some vs \<Rightarrow>
          Inr (''Contact name: '' @ name r @ '', phones: '' @ join '', '' vs
               @ '', birthday: '' @ str_opt (birthday r)))"

text \<open>The dictionary \<^verbatim>\<open>serialize\<close> returns and \<^verbatim>\<open>deserialize\<close> reads.\<close>

record serialized =
  s_name :: string
  s_phones :: "string option list"
  s_birthday :: "string option"

definition serialize :: "Record \<Rightarrow> serialized" where
  "serialize r = \<lparr>s_name = name r, s_phones = phones r, s_birthday = birthday r\<rparr>"

text \<open>The loop \<^verbatim>\<open>for phone in phones: record.add_phone(phone)\<close>.\<close>

fun add_phones :: "Record \<Rightarrow> string option list \<Rightarrow> exn + Record" where
  "add_phones r [] = Inr r"
| "add_phones r (p # ps) =
     (case add_phone r p of Inl e \<Rightarrow> Inl e | Inr r' \<Rightarrow> add_phones r' ps)"

definition deserialize :: "serialized \<Rightarrow> exn + Record" where
  "deserialize data =
     (case Record_init (s_name data) (s_birthday data) of
        Inl e \<Rightarrow> Inl e
      | Inr record \<Rightarrow> add_phones record (s_phones data))"

subsection \<open>AddressBook\<close>

text \<open>
  The dictionary \<^verbatim>\<open>self.data\<close> is a list of pairs in insertion order, its keys
  distinct: assigning to a key that is present keeps its place, a new key goes last.
\<close>

type_synonym AddressBook = "(string \<times> Record) list"

fun dict_set :: "'k \<Rightarrow> 'v \<Rightarrow> ('k \<times> 'v) list \<Rightarrow> ('k \<times> 'v) list" where
  "dict_set k v [] = [(k, v)]"
| "dict_set k v ((k', v') # d) =
     (if k' = k then (k, v) # d else (k', v') # dict_set k v d)"

definition dict_del :: "'k \<Rightarrow> ('k \<times> 'v) list \<Rightarrow> ('k \<times> 'v) list" where
  "dict_del k d = filter (\<lambda>kv. fst kv \<noteq> k) d"

definition has_key :: "('k \<times> 'v) list \<Rightarrow> 'k \<Rightarrow> bool" where
  "has_key d k = (k \<in> set (map fst d))"

definition add_record :: "AddressBook \<Rightarrow> Record \<Rightarrow> AddressBook" where
  "add_record b record = dict_set (name record) record b"

definition delete :: "AddressBook \<Rightarrow> string \<Rightarrow> AddressBook" where
  "delete b nm = (if has_key b nm then dict_del nm b else b)"

definition find :: "AddressBook \<Rightarrow> string \<Rightarrow> Record option" where
  "find b nm = (if has_key b nm then map_of b nm else None)"

text \<open>\<^verbatim>\<open>query in phone.value\<close> raises \<^verbatim>\<open>TypeError\<close> when the value is \<^verbatim>\<open>None\<close>;
  \<^verbatim>\<open>any\<close> stops at the first phone that matches.\<close>

definition in_none_msg :: string where
  "in_none_msg = ''argument of type '' @ quoted ''NoneType'' @ '' is not iterable''"

fun any_contains :: "string \<Rightarrow> string option list \<Rightarrow> exn + bool" where
  "any_contains query [] = Inr False"
| "any_contains query (None # vs) = Inl (TypeError in_none_msg)"
| "any_contains query (Some v # vs) =
     (if str_contains v query then Inr True else any_contains query vs)"

definition matches :: "string \<Rightarrow> Record \<Rightarrow> exn + bool" where
  "matches query contact =
     (if str_contains (name contact) query then Inr True
      else any_contains query (phones contact))"

fun search_contacts :: "AddressBook \<Rightarrow> string \<Rightarrow> exn + Record list" where
  "search_contacts [] query = Inr []"
| "search_contacts ((k, contact) # rest) query =
     (case matches query contact of
        Inl e \<Rightarrow> Inl e
      | Inr hit \<Rightarrow>
          (case search_contacts rest query of
             Inl e \<Rightarrow> Inl e
           | Inr results \<Rightarrow> Inr (if hit then contact # results else results)))"

subsection \<open>Files\<close>

text \<open>
  The file system is the collaborator behind \<^verbatim>\<open>open\<close>, \<^verbatim>\<open>json.dump\<close> and
  \<^verbatim>\<open>json.load\<close>. A file holds either text that \<^verbatim>\<open>json.load\<close> rejects or the
  document \<^verbatim>\<open>{"contacts": [...]}\<close> that \<^verbatim>\<open>save_to_file\<close> writes; documents of another
  shape are not modelled. \<^verbatim>\<open>open\<close> raises \<^verbatim>\<open>OSError\<close> for the empty path, for a
  path the environment refuses, and, when reading, for a file that does not exist.
\<close>

datatype fcontent = Malformed | Doc "serialized list"

definition open_msg :: string where
  "open_msg = ''No such file or directory''"

definition save_to_file ::
  "string list \<Rightarrow> AddressBook \<Rightarrow> (string \<times> fcontent) list \<Rightarrow> string
     \<Rightarrow> exn + (string \<times> fcontent) list" where
  "save_to_file refused b fs filename =
     (if filename = [] \<or> filename \<in> set refused then Inl (OSError open_msg)
      else Inr (dict_set filename (Doc (map (\<lambda>kv. serialize (snd kv)) b)) fs))"

text \<open>The dictionary comprehension of \<^verbatim>\<open>load_from_file\<close>; \<^verbatim>\<open>self.data\<close> is assigned
  only when every record has been built.\<close>

fun load_records :: "serialized list \<Rightarrow> AddressBook \<Rightarrow> exn + AddressBook" where
  "load_records [] acc = Inr acc"
| "load_records (d # ds) acc =
     (case deserialize d of
        Inl e \<Rightarrow> Inl e
      | Inr r \<Rightarrow> load_records ds (dict_set (s_name d) r acc))"

definition load_from_file ::
  "string list \<Rightarrow> (string \<times> fcontent) list \<Rightarrow> string \<Rightarrow> exn + AddressBook" where
  "load_from_file refused fs filename =
     (if filename = [] \<or> filename \<in> set refused then Inl (OSError open_msg)
      else
        (case map_of fs filename of
           None \<Rightarrow> Inl (OSError open_msg)
         | Some Malformed \<Rightarrow> Inl (JSONDecodeError ''Expecting value'')
         | Some (Doc ds) \<Rightarrow> load_records ds []))"

subsection \<open>The decorator \<^verbatim>\<open>input_error\<close> and the commands it wraps\<close>

text \<open>A value handed to \<^verbatim>\<open>print\<close>: a string, a list of phone values, or the result of
  \<^verbatim>\<open>days_to_birthday\<close>.\<close>

datatype pyval = Str string | StrList "string option list" | IntOrNone "int option"

text \<open>
  The \<^verbatim>\<open>except\<close> clauses of the wrapper, in their order. \<^verbatim>\<open>JSONDecodeError\<close> is a
  subclass of \<^verbatim>\<open>ValueError\<close>.
\<close>

fun except_msg :: "exn \<Rightarrow> string" where
  "except_msg (KeyError m) = ''Enter user name''"
| "except_msg (ValueError m) = m"
| "except_msg (JSONDecodeError m) = m"
| "except_msg (IndexError m) =
     (if str_contains m ''unpack'' then ''Give me name and phone please'' else ''Invalid input'')"
| "except_msg e = str_exn e"

text \<open>
  A wrapped command returns the address book with the value it returns. Each command
  below changes the address book in its last statement, after the last place where it
  can raise, so that the book is unchanged when an exception reaches the wrapper.
\<close>

definition input_error :: "AddressBook \<Rightarrow> exn + AddressBook \<times> pyval \<Rightarrow> AddressBook \<times> pyval" where
  "input_error b res = (case res of Inl e \<Rightarrow> (b, Str (except_msg e)) | Inr x \<Rightarrow> x)"

text \<open>The loop of \<^verbatim>\<open>add_contact\<close> over \<^verbatim>\<open>phones_and_birthday\<close>.\<close>

fun sort_args :: "string list \<Rightarrow> string list \<Rightarrow> string option \<Rightarrow> string list \<times> string option" where
  "sort_args [] phs bd = (phs, bd)"
| "sort_args (arg # args) phs bd =
     (if str_contains arg ''-'' then
        (case strptime arg of
           Inl e \<Rightarrow> sort_args args phs bd
         | Inr dt \<Rightarrow> sort_args args phs (Some arg))
      else sort_args args (phs @ [arg]) bd)"

definition add_contact_body :: "AddressBook \<Rightarrow> string \<Rightarrow> string list \<Rightarrow> exn + AddressBook \<times> pyval" where
  "add_contact_body b nm phones_and_birthday =
     (case sort_args phones_and_birthday [] None of (phs, bd) \<Rightarrow>
        (case Record_init nm bd of
           Inl e \<Rightarrow> Inl e
         | Inr record \<Rightarrow>
             (case add_phones record (map Some phs) of
                Inl e \<Rightarrow> Inl e
              | Inr record' \<Rightarrow> Inr (add_record b record', Str ''Contact added successfully''))))"

definition add_contact :: "AddressBook \<Rightarrow> string \<Rightarrow> string list \<Rightarrow> AddressBook \<times> pyval" where
  "add_contact b nm phones_and_birthday = input_error b (add_contact_body b nm phones_and_birthday)"

definition index_msg :: string where
  "index_msg = ''list index out of range''"

definition change_phone_body :: "AddressBook \<Rightarrow> string \<Rightarrow> string \<Rightarrow> exn + AddressBook \<times> pyval" where
  "change_phone_body b nm phone =
     (if has_key b nm then
        if phone = [] then Inl (ValueError ''Phone is missing'')
        else
          (case map_of b nm of
             None \<Rightarrow> Inl (KeyError nm)
           | Some record \<Rightarrow>
               (case phones record of
                  [] \<Rightarrow> Inl (IndexError index_msg)
                | p0 # ps \<Rightarrow>
                    (case edit_phone record p0 (Some phone) of
                       Inl e \<Rightarrow> Inl e
                     | Inr record' \<Rightarrow> Inr (dict_set nm record' b, Str ''Phone number updated''))))
      else Inl (ValueError (not_found_msg nm)))"

definition change_phone :: "AddressBook \<Rightarrow> string \<Rightarrow> string \<Rightarrow> AddressBook \<times> pyval" where
  "change_phone b nm phone = input_error b (change_phone_body b nm phone)"

definition find_phone_body :: "AddressBook \<Rightarrow> string \<Rightarrow> exn + AddressBook \<times> pyval" where
  "find_phone_body b nm =
     (if has_key b nm then
        (case map_of b nm of
           None \<Rightarrow> Inl (KeyError nm)
         | Some record \<Rightarrow>
             if phones record \<noteq> [] then Inr (b, StrList (phones record))
             else Inr (b, Str (''No phones found for contact '' @ quoted nm)))
      else Inl (ValueError (not_found_msg nm)))"

definition find_phone :: "AddressBook \<Rightarrow> string \<Rightarrow> AddressBook \<times> pyval" where
  "find_phone b nm = input_error b (find_phone_body b nm)"

text \<open>The strings of the records, for \<^verbatim>\<open>show_all_contacts\<close> and
  \<^verbatim>\<open>show_contacts_batch\<close>: the first \<^verbatim>\<open>TypeError\<close> ends the comprehension.\<close>

fun strs :: "Record list \<Rightarrow> exn + string list" where
  "strs [] = Inr []"
| "strs (r # rs) =
     (case Record_str r of
        Inl e \<Rightarrow> Inl e
      | Inr s \<Rightarrow> (case strs rs of Inl e \<Rightarrow> Inl e | Inr ss \<Rightarrow> Inr (s # ss)))"

definition show_all_contacts :: "AddressBook \<Rightarrow> exn + string" where
  "show_all_contacts b =
     (if b = [] then Inr ''No contacts found''
      else (case strs (map snd b) of
              Inl e \<Rightarrow> Inl e
            | Inr ss \<Rightarrow> Inr (join [CHR 0x0A] ss)))"

subsection \<open>The loop of \<^verbatim>\<open>main\<close>\<close>

text \<open>\<^verbatim>\<open>str.lower\<close>, by the table of the letters that have a lower case, and
  \<^verbatim>\<open>str.split()\<close>.\<close>

definition upper_chars :: string where
  "upper_chars = ''ABCDEFGHIJKLMNOPQRSTUVWXYZ'' @
         [CHR 0xC0, CHR 0xC1, CHR 0xC2, CHR 0xC3, CHR 0xC4, CHR 0xC5, CHR 0xC6, CHR 0xC7,
          CHR 0xC8, CHR 0xC9, CHR 0xCA, CHR 0xCB, CHR 0xCC, CHR 0xCD, CHR 0xCE, CHR 0xCF,
          CHR 0xD0, CHR 0xD1, CHR 0xD2, CHR 0xD3, CHR 0xD4, CHR 0xD5, CHR 0xD6, CHR 0xD8,
          CHR 0xD9, CHR 0xDA, CHR 0xDB, CHR 0xDC, CHR 0xDD, CHR 0xDE]"

definition lower_chars :: string where
  "lower_chars = ''abcdefghijklmnopqrstuvwxyz'' @
         [CHR 0xE0, CHR 0xE1, CHR 0xE2, CHR 0xE3, CHR 0xE4, CHR 0xE5, CHR 0xE6, CHR 0xE7,
          CHR 0xE8, CHR 0xE9, CHR 0xEA, CHR 0xEB, CHR 0xEC, CHR 0xED, CHR 0xEE, CHR 0xEF,
          CHR 0xF0, CHR 0xF1, CHR 0xF2, CHR 0xF3, CHR 0xF4, CHR 0xF5, CHR 0xF6, CHR 0xF8,
          CHR 0xF9, CHR 0xFA, CHR 0xFB, CHR 0xFC, CHR 0xFD, CHR 0xFE]"

definition lower_char :: "char \<Rightarrow> char" where
  "lower_char c = (case map_of (zip upper_chars lower_chars) c of Some l \<Rightarrow> l | None \<Rightarrow> c)"

definition lower :: "string \<Rightarrow> string" where
  "lower s = map lower_char s"

fun split_from :: "string \<Rightarrow> string \<Rightarrow> string list" where
  "split_from cur [] = (if cur = [] then [] else [cur])"
| "split_from cur (c # cs) =
     (if isspace_char c then (if cur = [] then split_from [] cs else cur # split_from [] cs)
      else split_from (cur @ [c]) cs)"

definition split :: "string \<Rightarrow> string list" where
  "split s = split_from [] s"

text \<open>
  The state of the program: the global \<^verbatim>\<open>address_book\<close>, the files, and what has been
  printed so far (the prompts of \<^verbatim>\<open>input\<close> are left out). The environment gives the
  paths \<^verbatim>\<open>open\<close> refuses and, for each iteration of the loop, what \<^verbatim>\<open>datetime.now()\<close>
  returns in it. The lines typed at the console are a list; \<^verbatim>\<open>input\<close> takes the first
  and raises \<^verbatim>\<open>EOFError\<close> when none is left.
\<close>

record state =
  book :: AddressBook
  files :: "(string \<times> fcontent) list"
  out :: "pyval list"

record env =
  refused :: "string list"
  clock :: "nat \<Rightarrow> datetime"

definition print :: "state \<Rightarrow> pyval \<Rightarrow> state" where
  "print st v = st\<lparr>out := out st @ [v]\<rparr>"

text \<open>One iteration ends in the next iteration, in \<^verbatim>\<open>break\<close>, or in an exception that
  nothing catches and that ends the process.\<close>

datatype outcome = Continue state "string list" | Break state | Raised exn state

text \<open>The messages of a failed unpacking of \<^verbatim>\<open>command.split()\<close>.\<close>

definition unpack_msg :: "nat \<Rightarrow> nat \<Rightarrow> string" where
  "unpack_msg expected got =
     (if got < expected
      then ''not enough values to unpack (expected '' @ str_nat expected @ '', got '' @ str_nat got @ '')''
      else ''too many values to unpack (expected '' @ str_nat expected @ '')'')"

definition unpack_least_msg :: "nat \<Rightarrow> nat \<Rightarrow> string" where
  "unpack_least_msg expected got =
     ''not enough values to unpack (expected at least '' @ str_nat expected @ '', got ''
       @ str_nat got @ '')''"

definition do_add :: "string \<Rightarrow> state \<Rightarrow> string list \<Rightarrow> outcome" where
  "do_add command st ins =
     (case split command of
        [] \<Rightarrow> Raised (ValueError (unpack_least_msg 1 0)) st
      | w # rest \<Rightarrow>
          (case rest of
             nm # phone # others \<Rightarrow>
               (case add_contact (book st) nm (phone # take 1 others) of
                  (b, response) \<Rightarrow> Continue (print (st\<lparr>book := b\<rparr>) response) ins)
           | _ \<Rightarrow> Continue (print st (Str ''Enter at least name and phone'')) ins))"

definition do_change :: "string \<Rightarrow> state \<Rightarrow> string list \<Rightarrow> outcome" where
  "do_change command st ins =
     (case split command of
        w # nm # phone \<Rightarrow>
          (case change_phone (book st) nm (join '' '' phone) of
             (b, response) \<Rightarrow> Continue (print (st\<lparr>book := b\<rparr>) response) ins)
      | toks \<Rightarrow> Raised (ValueError (unpack_least_msg 2 (length toks))) st)"

definition do_phone :: "string \<Rightarrow> state \<Rightarrow> string list \<Rightarrow> outcome" where
  "do_phone command st ins =
     (case split command of
        [w, nm] \<Rightarrow>
          (case find_phone (book st) nm of
             (b, response) \<Rightarrow> Continue (print (st\<lparr>book := b\<rparr>) response) ins)
      | toks \<Rightarrow> Raised (ValueError (unpack_msg 2 (length toks))) st)"

definition do_show_all :: "state \<Rightarrow> string list \<Rightarrow> outcome" where
  "do_show_all st ins =
     (case show_all_contacts (book st) of
        Inl e \<Rightarrow> Raised e st
      | Inr result \<Rightarrow> Continue (print st (Str result)) ins)"

definition do_birthday :: "datetime \<Rightarrow> string \<Rightarrow> state \<Rightarrow> string list \<Rightarrow> outcome" where
  "do_birthday now command st ins =
     (case split command of
        [w, nm] \<Rightarrow>
          (case find (book st) nm of
             Some contact \<Rightarrow>
               (case days_to_birthday now contact of
                  Inl e \<Rightarrow> Continue (print st (Str (str_exn e))) ins
                | Inr response \<Rightarrow> Continue (print st (IntOrNone response)) ins)
           | None \<Rightarrow> Continue (print st (Str (not_found_msg nm))) ins)
      | toks \<Rightarrow> Raised (ValueError (unpack_msg 2 (length toks))) st)"

text \<open>\<^verbatim>\<open>AddressBook.delete\<close> never raises, so the \<^verbatim>\<open>except KeyError\<close> clause of this
  branch, which prints that the contact was not found, is never taken.\<close>

definition do_delete :: "string \<Rightarrow> state \<Rightarrow> string list \<Rightarrow> outcome" where
  "do_delete command st ins =
     (case split command of
        [w, nm] \<Rightarrow>
          Continue (print (st\<lparr>book := delete (book st) nm\<rparr>)
                      (Str (''Contact '' @ quoted nm @ '' deleted successfully''))) ins
      | toks \<Rightarrow> Raised (ValueError (unpack_msg 2 (length toks))) st)"

text \<open>The loop of \<^verbatim>\<open>show_contacts_batch\<close>: it prints, and waits for a line after
  every \<open>batch_size\<close> records but the last.\<close>

fun batch_loop :: "nat \<Rightarrow> nat \<Rightarrow> string list \<Rightarrow> state \<Rightarrow> string list \<Rightarrow> outcome" where
  "batch_loop batch_size idx [] st ins = Continue st ins"
| "batch_loop batch_size idx (r # rs) st ins =
     (let st' = print st (Str r) in
      if batch_size = 0 then Raised (ZeroDivisionError ''integer modulo by zero'') st'
      else if (idx + 1) mod batch_size = 0 \<and> rs \<noteq> [] then
        (case ins of
           [] \<Rightarrow> Raised EOFError st'
         | l # ins' \<Rightarrow> batch_loop batch_size (idx + 1) rs st' ins')
      else batch_loop batch_size (idx + 1) rs st' ins)"

text \<open>\<^verbatim>\<open>main\<close> prints the result of \<^verbatim>\<open>show_contacts_batch\<close> item by item: nothing for
  the empty string, one character a line for \<^verbatim>\<open>"No contacts found"\<close>.\<close>

definition show_contacts_batch :: "nat \<Rightarrow> state \<Rightarrow> string list \<Rightarrow> outcome" where
  "show_contacts_batch batch_size st ins =
     (if book st = [] then
        Continue (st\<lparr>out := out st @ map (\<lambda>c. Str [c]) ''No contacts found''\<rparr>) ins
      else (case strs (map snd (book st)) of
              Inl e \<Rightarrow> Raised e st
            | Inr result \<Rightarrow> batch_loop batch_size 0 result st ins))"

definition batch_usage :: string where
  "batch_usage = ''Invalid '' @ quoted ''show batch'' @ '' command. Use '' @ quoted ''show batch N''
     @ '', where N is the batch size.''"

definition do_show_batch :: "string \<Rightarrow> state \<Rightarrow> string list \<Rightarrow> outcome" where
  "do_show_batch command st ins =
     (case split command of
        [w1, w2, n] \<Rightarrow>
          if isdigit n then
            (case py_int n of
               None \<Rightarrow> Raised (ValueError ''invalid literal for int()'') st
             | Some batch_size \<Rightarrow> show_contacts_batch (nat batch_size) st ins)
          else Continue (print st (Str batch_usage)) ins
      | _ \<Rightarrow> Continue (print st (Str batch_usage)) ins)"

definition do_save :: "env \<Rightarrow> state \<Rightarrow> string list \<Rightarrow> outcome" where
  "do_save e st ins =
     (case ins of
        [] \<Rightarrow> Raised EOFError st
      | filename # ins' \<Rightarrow>
          (case save_to_file (refused e) (book st) (files st) filename of
             Inl x \<Rightarrow> Raised x st
           | Inr fs \<Rightarrow>
               Continue (print (st\<lparr>files := fs\<rparr>) (Str (''Address book saved to '' @ filename))) ins'))"

definition do_load :: "env \<Rightarrow> state \<Rightarrow> string list \<Rightarrow> outcome" where
  "do_load e st ins =
     (case ins of
        [] \<Rightarrow> Raised EOFError st
      | filename # ins' \<Rightarrow>
          (case load_from_file (refused e) (files st) filename of
             Inl x \<Rightarrow> Raised x st
           | Inr b \<Rightarrow>
               Continue (print (st\<lparr>book := b\<rparr>) (Str ''Address book loaded successfully'')) ins'))"

text \<open>The loop \<^verbatim>\<open>for result in results: print(result)\<close> of the search branch.\<close>

fun print_records :: "Record list \<Rightarrow> state \<Rightarrow> string list \<Rightarrow> outcome" where
  "print_records [] st ins = Continue st ins"
| "print_records (r # rs) st ins =
     (case Record_str r of
        Inl e \<Rightarrow> Raised e st
      | Inr s \<Rightarrow> print_records rs (print st (Str s)) ins)"

definition do_search :: "string \<Rightarrow> state \<Rightarrow> string list \<Rightarrow> outcome" where
  "do_search command st ins =
     (let query = drop 7 command in
      case search_contacts (book st) query of
        Inl e \<Rightarrow> Raised e st
      | Inr results \<Rightarrow>
          if results \<noteq> [] then print_records results st ins
          else Continue (print st (Str (''No contacts found matching '' @ quoted query))) ins)"

text \<open>The body of the loop, on the line \<^verbatim>\<open>input(...).lower()\<close>: the chain of
  \<^verbatim>\<open>if\<close> and \<^verbatim>\<open>elif\<close> in its order.\<close>

definition dispatch :: "env \<Rightarrow> datetime \<Rightarrow> string \<Rightarrow> state \<Rightarrow> string list \<Rightarrow> outcome" where
  "dispatch e now command st ins =
     (if command = ''hello'' then Continue (print st (Str ''How can I help you?'')) ins
      else if startswith command ''add '' then do_add command st ins
      else if startswith command ''change '' then do_change command st ins
      else if startswith command ''phone '' then do_phone command st ins
      else if command = ''show all'' then do_show_all st ins
      else if startswith command ''birthday '' then do_birthday now command st ins
      else if startswith command ''delete '' then do_delete command st ins
      else if startswith command ''show batch'' then do_show_batch command st ins
      else if command = ''save'' then do_save e st ins
      else if command = ''load'' then do_load e st ins
      else if startswith command ''search '' then do_search command st ins
      else if command \<in> set [''good bye'', ''close'', ''exit''] then Break (print st (Str ''Good bye!''))
      else Continue (print st (Str ''Invalid command. Please try again'')) ins)"

text \<open>The lines an iteration leaves are among those it was given.\<close>

fun left :: "outcome \<Rightarrow> nat" where
  "left (Continue st ins) = length ins"
| "left (Break st) = 0"
| "left (Raised x st) = 0"

subsection \<open>Running the loop\<close>

text \<open>Every iteration takes a line, so the loop ends when the lines do: with
  \<^verbatim>\<open>EOFError\<close>, unless a line before was an exit command or an exception ended the
  process.\<close>

lemma batch_loop_left: "left (batch_loop n idx rs st ins) \<le> length ins"
proof (induction rs arbitrary: idx st ins)
  case Nil
  then show ?case by simp
next
  case (Cons r rs)
  show ?case
  proof (cases ins)
    case Nil
    then show ?thesis using Cons.IH [of "idx + 1" "print st (Str r)" "[]"]
      by (simp add: Let_def)
  next
    case (Cons l ins')
    then show ?thesis
      using Cons.IH [of "idx + 1" "print st (Str r)" ins'] Cons.IH [of "idx + 1" "print st (Str r)" ins]
      by (simp add: Let_def)
  qed
qed

lemma print_records_left: "left (print_records rs st ins) \<le> length ins"
  by (induction rs arbitrary: st) (auto split: sum.splits)

lemma do_add_left: "left (do_add c st ins) \<le> length ins"
  by (simp add: do_add_def split: list.splits prod.splits)

lemma do_change_left: "left (do_change c st ins) \<le> length ins"
  by (simp add: do_change_def split: list.splits prod.splits)

lemma do_phone_left: "left (do_phone c st ins) \<le> length ins"
  by (simp add: do_phone_def split: list.splits prod.splits)

lemma do_show_all_left: "left (do_show_all st ins) \<le> length ins"
  by (simp add: do_show_all_def split: sum.splits)

lemma do_birthday_left: "left (do_birthday now c st ins) \<le> length ins"
  by (simp add: do_birthday_def split: list.splits option.splits sum.splits)

lemma do_delete_left: "left (do_delete c st ins) \<le> length ins"
  by (simp add: do_delete_def split: list.splits)

lemma show_contacts_batch_left: "left (show_contacts_batch n st ins) \<le> length ins"
  by (simp add: show_contacts_batch_def batch_loop_left split: sum.splits)

lemma do_show_batch_left: "left (do_show_batch c st ins) \<le> length ins"
  by (simp add: do_show_batch_def show_contacts_batch_left split: list.splits option.splits)

lemma do_save_left: "left (do_save e st ins) \<le> length ins"
  by (simp add: do_save_def split: list.splits sum.splits)

lemma do_load_left: "left (do_load e st ins) \<le> length ins"
  by (simp add: do_load_def split: list.splits sum.splits)

lemma do_search_left: "left (do_search c st ins) \<le> length ins"
  by (simp add: do_search_def Let_def print_records_left split: sum.splits)


lemma left_if: "left a \<le> n \<Longrightarrow> left b \<le> n \<Longrightarrow> left (if c then a else b) \<le> n"
  by simp

lemma dispatch_left: "left (dispatch e now c st ins) \<le> length ins"
  unfolding dispatch_def
  by (intro left_if do_add_left do_change_left do_phone_left do_show_all_left do_birthday_left
      do_delete_left do_show_batch_left do_save_left do_load_left do_search_left) simp_all

lemma dispatch_Continue:
  "dispatch e now c st ins = Continue st' ins' \<Longrightarrow> length ins' \<le> length ins"
  using dispatch_left [of e now c st ins] by simp

datatype result = Exited state | Crashed exn state

function main_loop :: "env \<Rightarrow> nat \<Rightarrow> state \<Rightarrow> string list \<Rightarrow> result" where
  "main_loop e i st [] = Crashed EOFError st"
| "main_loop e i st (l # ins) =
     (case dispatch e (clock e i) (lower l) st ins of
        Continue st' ins' \<Rightarrow> main_loop e (Suc i) st' ins'
      | Break st' \<Rightarrow> Exited st'
      | Raised x st' \<Rightarrow> Crashed x st')"
  by pat_completeness auto
termination
  by (relation "measure (\<lambda>(e, i, st, ins). length ins)") (auto dest: dispatch_Continue)

text \<open>The program: \<^verbatim>\<open>address_book = AddressBook()\<close>, then \<^verbatim>\<open>main()\<close>, which greets
  before it enters the loop.\<close>

definition main :: "env \<Rightarrow> (string \<times> fcontent) list \<Rightarrow> string list \<Rightarrow> result" where
  "main e fs ins =
     main_loop e 0 \<lparr>book = [], files = fs, out = [Str ''How can I help you?'']\<rparr> ins"

subsection \<open>Predicates and sample data of the properties\<close>

text \<open>A record whose phones have all passed \<^verbatim>\<open>validate_phone\<close> and whose birthday is
  absent or has passed \<^verbatim>\<open>validate_birthday\<close>.\<close>

definition validated :: "Record \<Rightarrow> bool" where
  "validated r =
     (list_all (\<lambda>p. validate_phone p = Inr True) (phones r)
      \<and> (case birthday r of None \<Rightarrow> True | Some b \<Rightarrow> validate_birthday b))"

text \<open>\<open>q\<close> is a substring of \<open>s\<close>, in the words of the specification.\<close>

definition has_substring :: "string \<Rightarrow> string \<Rightarrow> bool" where
  "has_substring s q = (\<exists>l r. s = l @ q @ r)"

text \<open>An address book in which every phone has a value.\<close>

definition no_null_phones :: "AddressBook \<Rightarrow> bool" where
  "no_null_phones b = (\<forall>kv \<in> set b. None \<notin> set (phones (snd kv)))"

definition alice :: Record where
  "alice = \<lparr>name = ''alice'', phones = [Some ''1234567890'', Some ''0987654321''],
             birthday = Some ''1990-05-20''\<rparr>"

definition bob :: Record where
  "bob = \<lparr>name = ''bob'', phones = [Some ''5551234567''], birthday = None\<rparr>"

definition carol555 :: Record where
  "carol555 = \<lparr>name = ''carol555'', phones = [], birthday = None\<rparr>"

definition bob_cleared :: Record where
  "bob_cleared = \<lparr>name = ''bob'', phones = [None], birthday = None\<rparr>"

definition noon_20_may_2024 :: datetime where
  "noon_20_may_2024 = \<lparr>year = 2024, month = 5, day = 20, usec = 43200000000\<rparr>"

text \<open>An environment and the state in which the program starts, for the examples.\<close>

definition env0 :: env where
  "env0 = \<lparr>refused = [], clock = (\<lambda>i. noon_20_may_2024)\<rparr>"

definition start :: state where
  "start = \<lparr>book = [], files = [], out = []\<rparr>"

text \<open>An argument of \<^verbatim>\<open>add\<close> that \<^verbatim>\<open>add_contact\<close> takes as the birthday and that the
  setter of \<^verbatim>\<open>Birthday\<close> then refuses: it has a hyphen and \<^verbatim>\<open>strptime\<close> parses it, but
  its year is not within 1900..2100.\<close>

definition rejected_date :: "string \<Rightarrow> bool" where
  "rejected_date arg =
     (str_contains arg ''-'' \<and> (\<exists>dt. strptime arg = Inr dt) \<and> \<not> validate_birthday arg)"

definition bob_no_phones :: Record where
  "bob_no_phones = \<lparr>name = ''bob'', phones = [], birthday = None\<rparr>"

section \<open>Properties\<close>

lemma startswith_iff: "startswith s p \<longleftrightarrow> (\<exists>r. s = p @ r)"
  by (induction s p rule: startswith.induct) auto

lemma str_contains_iff: "str_contains s q \<longleftrightarrow> (\<exists>l r. s = l @ q @ r)"
proof (induction s)
  case Nil
  then show ?case by simp
next
  case (Cons c cs)
  show ?case
  proof
    assume "str_contains (c # cs) q"
    then consider "startswith (c # cs) q" | "str_contains cs q" by auto
    then show "\<exists>l r. c # cs = l @ q @ r"
    proof cases
      case 1
      then obtain r where "c # cs = q @ r" by (auto simp: startswith_iff)
      then have "c # cs = [] @ q @ r" by simp
      then show ?thesis by blast
    next
      case 2
      then obtain l r where "cs = l @ q @ r" using Cons.IH by blast
      then have "c # cs = (c # l) @ q @ r" by simp
      then show ?thesis by blast
    qed
  next
    assume "\<exists>l r. c # cs = l @ q @ r"
    then obtain l r where eq: "c # cs = l @ q @ r" by blast
    show "str_contains (c # cs) q"
    proof (cases l)
      case Nil
      with eq have "startswith (c # cs) q" by (auto simp: startswith_iff)
      then show ?thesis by simp
    next
      case (Cons a l')
      with eq have "cs = l' @ q @ r" by simp
      then have "str_contains cs q" using Cons.IH by blast
      then show ?thesis by simp
    qed
  qed
qed

subsection \<open>C3: what \<^verbatim>\<open>Phone.validate_phone\<close> accepts\<close>





subsection \<open>C1: \<^verbatim>\<open>Birthday.validate_birthday\<close> on dates in \<^verbatim>\<open>YYYY-MM-DD\<close> form\<close>

lemma nlt10: "n < 10 \<Longrightarrow> n \<in> {0,1,2,3,4,5,6,7,8,9::nat}" by auto

lemma digit_char_props:
  assumes "n < 10"
  shows "isdecimal_char (digit_char n)" and "digit_val (digit_char n) = n"
    and "digit_char n \<noteq> CHR ''-''" and "digit_char n \<noteq> CHR ''_''" and "digit_char n \<noteq> CHR ''+''"
    and "\<not> int_space_char (digit_char n)"
  using nlt10[OF assms]
  by (auto simp: digit_char_def isdecimal_char_def digit_val_def int_space_char_def)

lemma pad4_val:
  fixes y :: nat
  assumes "y < 10000"
  shows "1000 * (y div 1000 mod 10) + 100 * (y div 100 mod 10) + 10 * (y div 10 mod 10) + y mod 10 = y"
proof -
  have a: "y div 1000 mod 10 = y div 1000" using assms by simp
  have e1: "y div 100 div 10 = y div 1000"
    using div_mult2_eq [of y 100 10, symmetric] by simp
  have e2: "y div 10 div 10 = y div 100"
    using div_mult2_eq [of y 10 10, symmetric] by simp
  have b: "y div 100 = 10 * (y div 1000) + y div 100 mod 10"
    using div_mult_mod_eq [of "y div 100" 10] unfolding e1 by linarith
  have c: "y div 10 = 10 * (y div 100) + y div 10 mod 10"
    using div_mult_mod_eq [of "y div 10" 10] unfolding e2 by linarith
  have d: "y = 10 * (y div 10) + y mod 10" by simp
  show ?thesis using a b c d by linarith
qed

lemma re_Y_pad4: "y < 10000 \<Longrightarrow> re_Y (pad4 y @ rest) = Some (y, rest)"
proof -
  assume y: "y < 10000"
  have "re_Y (pad4 y @ rest) =
      Some (1000 * (y div 1000 mod 10) + 100 * (y div 100 mod 10) + 10 * (y div 10 mod 10) + y mod 10, rest)"
    unfolding pad4_def by (simp add: digit_char_props del: mod_less)
  then show ?thesis unfolding pad4_val [OF y] .
qed

lemma months_upt: "[1..<13] = [1,2,3,4,5,6,7,8,9,10,11,12::nat]"
  by code_simp

lemma days_upt: "[1..<32] =
  [1,2,3,4,5,6,7,8,9,10,11,12,13,14,15,16,17,18,19,20,21,22,23,24,25,26,27,28,29,30,31::nat]"
  by code_simp

lemma re_m_pad2_all:
  "\<forall>m \<in> set [1,2,3,4,5,6,7,8,9,10,11,12::nat]. re_m (pad2 m @ rest) = Some (m, rest)"
  by (simp add: pad2_def digit_char_def digit_val_def)

lemma re_m_pad2: "1 \<le> m \<Longrightarrow> m \<le> 12 \<Longrightarrow> re_m (pad2 m @ rest) = Some (m, rest)"
  using re_m_pad2_all [of rest] unfolding months_upt [symmetric] by simp

lemma re_d_pad2_all:
  "\<forall>d \<in> set [1,2,3,4,5,6,7,8,9,10,11,12,13,14,15,16,17,18,19,20,21,22,23,24,25,26,27,28,29,30,31::nat].
     re_d (pad2 d @ rest) = Some (d, rest)"
  by (simp add: pad2_def digit_char_def digit_val_def isdecimal_char_def)

lemma re_d_pad2: "1 \<le> d \<Longrightarrow> d \<le> 31 \<Longrightarrow> re_d (pad2 d @ rest) = Some (d, rest)"
  using re_d_pad2_all [of rest] unfolding days_upt [symmetric] by simp


lemma strptime_iso:
  assumes "y < 10000" "1 \<le> m" "m \<le> 12" "1 \<le> d" "d \<le> 31"
  shows "strptime (iso_date y m d) = datetime_new y m d"
proof -
  have 1: "re_Y (iso_date y m d) = Some (y, ''-'' @ pad2 m @ ''-'' @ pad2 d)"
    unfolding iso_date_def using assms(1) by (rule re_Y_pad4)
  have 2: "re_m (pad2 m @ ''-'' @ pad2 d) = Some (m, ''-'' @ pad2 d)"
    using assms(2,3) by (rule re_m_pad2)
  have 3: "re_d (pad2 d) = Some (d, [])"
    using re_d_pad2 [OF assms(4,5), of "[]"] by simp
  show ?thesis
    using 2 3 by (simp add: strptime_def 1)
qed

lemma split_on_no_sep: "sep \<notin> set p \<Longrightarrow> split_on sep p = [p]"
  by (induction p) auto

lemma split_on_append: "sep \<notin> set p \<Longrightarrow> split_on sep (p @ sep # rest) = p # split_on sep rest"
  by (induction p) auto

lemma pad_no_hyphen: "CHR ''-'' \<notin> set (pad4 y)" "CHR ''-'' \<notin> set (pad2 n)"
  using digit_char_props(3) [of "y div 1000 mod 10"] digit_char_props(3) [of "y div 100 mod 10"]
    digit_char_props(3) [of "y div 10 mod 10"] digit_char_props(3) [of "y mod 10"]
    digit_char_props(3) [of "n div 10 mod 10"] digit_char_props(3) [of "n mod 10"]
  by (auto simp: pad4_def pad2_def)

lemma split_iso: "split_on CHR ''-'' (iso_date y m d) = [pad4 y, pad2 m, pad2 d]"
  unfolding iso_date_def
  using split_on_append [OF pad_no_hyphen(1), of y "pad2 m @ ''-'' @ pad2 d"]
    split_on_append [OF pad_no_hyphen(2), of m "pad2 d"]
    split_on_no_sep [OF pad_no_hyphen(2), of d]
  by simp

lemma pad2_val:
  fixes n :: nat
  assumes "n < 100"
  shows "10 * (n div 10 mod 10) + n mod 10 = n"
proof -
  have a: "n div 10 mod 10 = n div 10" using assms by simp
  have d: "n = 10 * (n div 10) + n mod 10" by simp
  show ?thesis using a d by linarith
qed

lemma py_int_unsigned:
  "int_strip s = c # cs \<Longrightarrow> c \<noteq> CHR ''-'' \<Longrightarrow> c \<noteq> CHR ''+'' \<Longrightarrow>
   py_int s = map_option int (int_digits 0 (c # cs))"
  by (simp add: py_int_def)

lemma py_int_pad2: "n < 100 \<Longrightarrow> py_int (pad2 n) = Some (int n)"
proof -
  assume n: "n < 100"
  have s: "int_strip (pad2 n) = digit_char (n div 10 mod 10) # [digit_char (n mod 10)]"
    by (simp add: int_strip_def pad2_def digit_char_props)
  have "int_digits 0 (pad2 n) = Some (10 * (n div 10 mod 10) + n mod 10)"
    unfolding pad2_def by (simp add: digit_char_props del: mod_less)
  then have i: "int_digits 0 (pad2 n) = Some n" unfolding pad2_val [OF n] .
  have p: "py_int (pad2 n) = map_option int (int_digits 0 (pad2 n))"
    using py_int_unsigned [OF s] by (simp add: digit_char_props pad2_def del: int_digits.simps)
  show ?thesis unfolding p i by simp
qed

lemma py_int_pad4: "y < 10000 \<Longrightarrow> py_int (pad4 y) = Some (int y)"
proof -
  assume y: "y < 10000"
  have s: "int_strip (pad4 y) = digit_char (y div 1000 mod 10) #
      [digit_char (y div 100 mod 10), digit_char (y div 10 mod 10), digit_char (y mod 10)]"
    by (simp add: int_strip_def pad4_def digit_char_props)
  have "int_digits 0 (pad4 y) =
      Some (1000 * (y div 1000 mod 10) + 100 * (y div 100 mod 10) + 10 * (y div 10 mod 10) + y mod 10)"
    unfolding pad4_def by (simp add: digit_char_props del: mod_less)
  then have i: "int_digits 0 (pad4 y) = Some y" unfolding pad4_val [OF y] .
  have p: "py_int (pad4 y) = map_option int (int_digits 0 (pad4 y))"
    using py_int_unsigned [OF s] by (simp add: digit_char_props pad4_def del: int_digits.simps)
  show ?thesis unfolding p i by simp
qed

text \<open>
  C1, amended: for a string in \<^verbatim>\<open>YYYY-MM-DD\<close> form with the year in 1900..2100, the
  month in 1..12 and the day in 1..31, \<^verbatim>\<open>validate_birthday\<close> returns true if and only
  if the day exists in that month of that year: \<^verbatim>\<open>strptime\<close> rejects the others.
\<close>

theorem validate_birthday_iso:
  assumes "1900 \<le> y" "y \<le> 2100" "1 \<le> m" "m \<le> 12" "1 \<le> d" "d \<le> 31"
  shows "validate_birthday (iso_date y m d) \<longleftrightarrow> d \<le> days_in_month y m"
proof -
  have y: "y < 10000" using assms(2) by simp
  have sp: "strptime (iso_date y m d) = datetime_new y m d"
    using y assms(3-6) by (rule strptime_iso)
  have ints: "map py_int (split_on CHR ''-'' (iso_date y m d)) = [Some (int y), Some (int m), Some (int d)]"
    using py_int_pad4 [OF y] py_int_pad2 [of m] py_int_pad2 [of d] assms(4,6)
    by (simp add: split_iso)
  show ?thesis
    unfolding validate_birthday_def sp ints using assms
    by (simp add: datetime_new_def)
qed

theorem validate_birthday_iso_witness:
  "validate_birthday (iso_date 2020 2 29) \<and> validate_birthday (iso_date 1990 5 20)
   \<and> \<not> validate_birthday (iso_date 2021 2 29)"
  using validate_birthday_iso [of 2020 2 29] validate_birthday_iso [of 1990 5 20]
    validate_birthday_iso [of 2021 2 29]
  by (simp add: days_in_month_def is_leap_def)

text \<open>
  C1, as stated, fails: 30 February 2021 has its year, month and day within the three
  ranges, and \<^verbatim>\<open>validate_birthday("2021-02-30")\<close> returns false.
\<close>

theorem validate_birthday_feb30:
  "iso_date 2021 2 30 = ''2021-02-30'' \<and> \<not> validate_birthday ''2021-02-30''"
  by (simp add: iso_date_def pad4_def pad2_def digit_char_def validate_birthday_def
      strptime_def isdecimal_char_def digit_val_def datetime_new_def days_in_month_def
      is_leap_def)

subsection \<open>C7: \<^verbatim>\<open>serialize\<close> and \<^verbatim>\<open>deserialize\<close>\<close>

lemma add_phone_valid:
  "validate_phone p = Inr True \<Longrightarrow> add_phone r p = Inr (r\<lparr>phones := phones r @ [p]\<rparr>)"
  by (cases p) auto

lemma add_phones_valid:
  "list_all (\<lambda>p. validate_phone p = Inr True) ps \<Longrightarrow>
   add_phones r ps = Inr (r\<lparr>phones := phones r @ ps\<rparr>)"
proof (induction ps arbitrary: r)
  case Nil
  then show ?case by simp
next
  case (Cons p ps)
  then have p: "validate_phone p = Inr True" and ps: "list_all (\<lambda>p. validate_phone p = Inr True) ps"
    by simp_all
  show ?case
    using Cons.IH [OF ps, of "r\<lparr>phones := phones r @ [p]\<rparr>"]
    by (simp add: add_phone_valid [OF p])
qed

lemma add_phone_cases:
  "add_phone r p = Inr r \<or> add_phone r p = Inr (r\<lparr>phones := phones r @ [p]\<rparr>)
   \<or> add_phone r p = Inl (ValueError phone_msg)"
  by (cases p) auto

lemma add_phone_invalid:
  "validate_phone (Some v) = Inr False \<Longrightarrow> add_phone r (Some v) = Inl (ValueError phone_msg)"
  by simp

lemma add_phones_invalid:
  "Some v \<in> set ps \<Longrightarrow> validate_phone (Some v) = Inr False \<Longrightarrow>
   add_phones r ps = Inl (ValueError phone_msg)"
proof (induction ps arbitrary: r)
  case Nil
  then show ?case by simp
next
  case (Cons p ps)
  show ?case
  proof (cases "p = Some v")
    case True
    have "add_phone r p = Inl (ValueError phone_msg)"
      unfolding True using Cons.prems(2) by (rule add_phone_invalid)
    then show ?thesis by simp
  next
    case False
    then have "Some v \<in> set ps" using Cons.prems(1) by simp
    then have ih: "\<And>r'. add_phones r' ps = Inl (ValueError phone_msg)"
      using Cons.IH Cons.prems(2) by blast
    show ?thesis
      using add_phone_cases [of r p] by (auto simp: ih)
  qed
qed

lemma Record_init_ok:
  "(case bd of None \<Rightarrow> True | Some b \<Rightarrow> validate_birthday b) \<Longrightarrow>
   Record_init nm bd = Inr \<lparr>name = nm, phones = [], birthday = bd\<rparr>"
  by (cases bd) (auto simp: Record_init_def)

lemma Record_init_bad:
  "\<not> validate_birthday b \<Longrightarrow> Record_init nm (Some b) = Inl (ValueError birthday_msg)"
  by (simp add: Record_init_def)

text \<open>
  C7: for every record whose phones are validated and whose birthday is absent or
  validated, \<^verbatim>\<open>deserialize(serialize(r))\<close> is a record with the same name, the same
  phones in the same order and the same birthday; and \<^verbatim>\<open>deserialize\<close> validates as the
  constructor and \<^verbatim>\<open>add_phone\<close> do: a persisted birthday that is not valid, or else a
  persisted phone that is not valid, makes it raise \<^verbatim>\<open>ValueError\<close> with the message of
  that field.
\<close>

theorem serialize_deserialize:
  "(validated r \<longrightarrow> deserialize (serialize r) = Inr r)
   \<and> (\<forall>b. s_birthday d = Some b \<and> \<not> validate_birthday b \<longrightarrow>
          deserialize d = Inl (ValueError birthday_msg))
   \<and> (\<forall>v. (case s_birthday d of None \<Rightarrow> True | Some b \<Rightarrow> validate_birthday b)
          \<and> Some v \<in> set (s_phones d) \<and> validate_phone (Some v) = Inr False \<longrightarrow>
          deserialize d = Inl (ValueError phone_msg))"
proof (intro conjI allI impI)
  assume v: "validated r"
  then have b: "case birthday r of None \<Rightarrow> True | Some b \<Rightarrow> validate_birthday b"
    and p: "list_all (\<lambda>p. validate_phone p = Inr True) (phones r)"
    by (simp_all add: validated_def)
  show "deserialize (serialize r) = Inr r"
    by (simp add: deserialize_def serialize_def Record_init_ok [OF b] add_phones_valid [OF p])
next
  fix b assume "s_birthday d = Some b \<and> \<not> validate_birthday b"
  then show "deserialize d = Inl (ValueError birthday_msg)"
    by (simp add: deserialize_def Record_init_bad)
next
  fix v
  assume a: "(case s_birthday d of None \<Rightarrow> True | Some b \<Rightarrow> validate_birthday b)
      \<and> Some v \<in> set (s_phones d) \<and> validate_phone (Some v) = Inr False"
  then have 1: "case s_birthday d of None \<Rightarrow> True | Some b \<Rightarrow> validate_birthday b"
    and 2: "Some v \<in> set (s_phones d)" and 3: "validate_phone (Some v) = Inr False"
    by blast+
  show "deserialize d = Inl (ValueError phone_msg)"
    unfolding deserialize_def Record_init_ok [OF 1] using add_phones_invalid [OF 2 3] by simp
qed

lemma alice_validated: "validated alice"
  by (simp add: validated_def alice_def isdigit_def isdigit_char_def isdecimal_char_def)
    (simp add:  validate_birthday_def strptime_def isdecimal_char_def digit_val_def datetime_new_def
      days_in_month_def is_leap_def py_int_def int_strip_def int_space_char_def)

theorem serialize_deserialize_witness:
  "validated alice \<and> deserialize (serialize alice) = Inr alice
   \<and> deserialize \<lparr>s_name = ''x'', s_phones = [], s_birthday = Some ''2021-02-30''\<rparr>
       = Inl (ValueError birthday_msg)
   \<and> deserialize \<lparr>s_name = ''x'', s_phones = [Some ''1234567890'', Some ''12''], s_birthday = None\<rparr>
       = Inl (ValueError phone_msg)"
proof -
  have b: "\<not> validate_birthday ''2021-02-30''"
    by (simp add: validate_birthday_def strptime_def isdecimal_char_def digit_val_def
        datetime_new_def days_in_month_def is_leap_def)
  have p: "validate_phone (Some ''12'') = Inr False" by simp
  let ?d1 = "\<lparr>s_name = ''x'', s_phones = [], s_birthday = Some ''2021-02-30''\<rparr>"
  let ?d2 = "\<lparr>s_name = ''x'', s_phones = [Some ''1234567890'', Some ''12''], s_birthday = None\<rparr>"
  have 1: "deserialize (serialize alice) = Inr alice"
    using serialize_deserialize [of alice ?d1] alice_validated by blast
  have 2: "deserialize ?d1 = Inl (ValueError birthday_msg)"
    using serialize_deserialize [of alice ?d1] b by simp
  have 3: "deserialize ?d2 = Inl (ValueError phone_msg)"
    using serialize_deserialize [of alice ?d2, THEN conjunct2, THEN conjunct2, THEN spec, of "''12''"] p
    by (simp del: validate_phone.simps)
  show ?thesis using alice_validated 1 2 3 by simp
qed

subsection \<open>C9: \<^verbatim>\<open>search_contacts\<close>\<close>

lemma any_contains_ok:
  "None \<notin> set vs \<Longrightarrow> any_contains q vs = Inr (\<exists>v. Some v \<in> set vs \<and> str_contains v q)"
proof (induction vs)
  case Nil
  then show ?case by simp
next
  case (Cons p vs)
  then obtain v where p: "p = Some v" by (cases p) auto
  have "None \<notin> set vs" using Cons.prems by simp
  then have ih: "any_contains q vs = Inr (\<exists>v. Some v \<in> set vs \<and> str_contains v q)"
    by (rule Cons.IH)
  show ?case unfolding p by (auto simp: ih)
qed

lemma matches_ok:
  "None \<notin> set (phones c) \<Longrightarrow>
   matches q c = Inr (has_substring (name c) q \<or> (\<exists>v. Some v \<in> set (phones c) \<and> has_substring v q))"
  by (simp add: matches_def any_contains_ok has_substring_def str_contains_iff)

text \<open>
  C9, amended: for every address book in which every phone has a value, and every query,
  \<^verbatim>\<open>search_contacts\<close> returns exactly the records whose name has the query as a
  substring or one of whose phone values has it, in insertion order; the characters are
  compared as they are.
\<close>

theorem search_contacts_exact:
  "no_null_phones b \<Longrightarrow>
   search_contacts b q =
     Inr (filter (\<lambda>c. has_substring (name c) q \<or> (\<exists>v. Some v \<in> set (phones c) \<and> has_substring v q))
            (map snd b))"
proof (induction b)
  case Nil
  then show ?case by simp
next
  case (Cons kv b)
  obtain k c where kv: "kv = (k, c)" by (cases kv)
  have c: "None \<notin> set (phones c)" and b: "no_null_phones b"
    using Cons.prems by (simp_all add: no_null_phones_def kv)
  show ?case
    unfolding kv by (simp add: matches_ok [OF c] Cons.IH [OF b])
qed

theorem search_contacts_exact_witness:
  "no_null_phones [(''alice'', alice), (''bob'', bob), (''carol555'', carol555)]
   \<and> search_contacts [(''alice'', alice), (''bob'', bob), (''carol555'', carol555)] ''555''
       = Inr [bob, carol555]"
proof -
  have n: "no_null_phones [(''alice'', alice), (''bob'', bob), (''carol555'', carol555)]"
    by (simp add: no_null_phones_def alice_def bob_def carol555_def)
  have "search_contacts [(''alice'', alice), (''bob'', bob), (''carol555'', carol555)] ''555''
      = Inr [bob, carol555]"
    using search_contacts_exact [OF n, of "''555''"]
    by (simp add: matches_def alice_def bob_def carol555_def)
  with n show ?thesis by simp
qed

text \<open>
  C9, as stated for every address book, fails where a phone has been cleared:
  \<^verbatim>\<open>edit_phone(old, None)\<close> leaves a phone whose value is \<^verbatim>\<open>None\<close>, and
  \<^verbatim>\<open>query in phone.value\<close> then raises \<^verbatim>\<open>TypeError\<close> instead of leaving the record out.
\<close>

theorem search_null_phone_raises:
  "edit_phone \<lparr>name = ''bob'', phones = [Some ''1234567890''], birthday = None\<rparr>
      (Some ''1234567890'') None = Inr bob_cleared
   \<and> search_contacts [(''bob'', bob_cleared)] ''555'' = Inl (TypeError in_none_msg)"
  by (simp add: edit_phone_def bob_cleared_def matches_def)

subsection \<open>C8: \<^verbatim>\<open>days_to_birthday\<close> on the birthday\<close>

text \<open>
  C8: the candidate is midnight of the birthday in the current year, and it is compared
  with \<^verbatim>\<open>datetime.now()\<close>, which has the time of day. At noon of 20 May 2024 the
  candidate for a birthday of 20 May is already before now, the birthday moves to 2025,
  and the result is 364, not 0.
\<close>

theorem days_to_birthday_on_the_day:
  "days_to_birthday noon_20_may_2024
     \<lparr>name = ''alice'', phones = [], birthday = Some ''1990-05-20''\<rparr> = Inr (Some 364)"
  by (simp add: noon_20_may_2024_def days_to_birthday_def strptime_def isdecimal_char_def
      digit_val_def datetime_new_def
      days_in_month_def is_leap_def dt_less_def diff_days_def dt_usecs_def ymd2ord_def
      days_before_year_def days_before_month_def usec_per_day_def)

lemma days_to_birthday_eve:
  "days_to_birthday (noon_20_may_2024\<lparr>day := 19\<rparr>)
     \<lparr>name = ''alice'', phones = [], birthday = Some ''1990-05-20''\<rparr> = Inr (Some 0)"
  by (simp add: noon_20_may_2024_def days_to_birthday_def strptime_def isdecimal_char_def
      digit_val_def datetime_new_def
      days_in_month_def is_leap_def dt_less_def diff_days_def dt_usecs_def ymd2ord_def
      days_before_year_def days_before_month_def usec_per_day_def)

lemma days_to_birthday_none: "birthday r = None \<Longrightarrow> days_to_birthday today r = Inr None"
  by (simp add: days_to_birthday_def)

lemma days_to_birthday_feb29:
  "days_to_birthday (noon_20_may_2024\<lparr>year := 2023\<rparr>)
     \<lparr>name = ''alice'', phones = [], birthday = Some ''2000-02-29''\<rparr>
     = Inl (ValueError day_range_msg)"
  by (simp add: noon_20_may_2024_def days_to_birthday_def strptime_def isdecimal_char_def
      digit_val_def datetime_new_def
      days_in_month_def is_leap_def dt_less_def diff_days_def dt_usecs_def ymd2ord_def
      days_before_year_def days_before_month_def usec_per_day_def)

subsection \<open>C4: \<^verbatim>\<open>add\<close> with a phone that is not valid\<close>

lemma print_eq: "print st v = st\<lparr>out := out st @ [v]\<rparr>"
  by (simp add: print_def)

lemma startswith_add: "startswith c ''add '' \<Longrightarrow> dispatch e now c st ins = do_add c st ins"
  by (auto simp: dispatch_def)

lemma sort_args_phone:
  "\<not> str_contains phone ''-'' \<Longrightarrow> sort_args (phone # args) phs bd = sort_args args (phs @ [phone]) bd"
  by simp

lemma sort_args_one:
  "sort_args [third] phs bd =
     (if str_contains third ''-'' then
        (if (\<exists>dt. strptime third = Inr dt) then (phs, Some third) else (phs, bd))
      else (phs @ [third], bd))"
  by (cases "strptime third") auto

lemma add_phones_first_invalid:
  "validate_phone (Some v) = Inr False \<Longrightarrow> add_phones r (Some v # ps) = Inl (ValueError phone_msg)"
  by (simp add: add_phone_invalid del: add_phone.simps)

lemma add_contact_body_eq:
  "sort_args args [] None = (phs, bd) \<Longrightarrow>
   add_contact_body b nm args =
     (case Record_init nm bd of
        Inl e \<Rightarrow> Inl e
      | Inr record \<Rightarrow>
          (case add_phones record (map Some phs) of
             Inl e \<Rightarrow> Inl e
           | Inr record' \<Rightarrow> Inr (add_record b record', Str ''Contact added successfully'')))"
  by (simp add: add_contact_body_def)

lemma Record_init_cases:
  "Record_init nm bd =
     (if (case bd of None \<Rightarrow> True | Some b \<Rightarrow> validate_birthday b)
      then Inr \<lparr>name = nm, phones = [], birthday = bd\<rparr>
      else Inl (ValueError birthday_msg))"
  by (cases bd) (simp_all add: Record_init_def)

lemma add_contact_invalid_phone:
  assumes "\<not> str_contains phone ''-''" and "validate_phone (Some phone) = Inr False"
  shows "add_contact b nm (phone # take 1 others) =
     (b, Str (if (case others of [] \<Rightarrow> False | third # x \<Rightarrow> rejected_date third)
              then birthday_msg else phone_msg))"
proof -
  obtain phs bd where s: "sort_args (take 1 others) [phone] None = (phone # phs, bd)"
    and bd: "(case bd of None \<Rightarrow> True | Some b \<Rightarrow> validate_birthday b)
      \<longleftrightarrow> \<not> (case others of [] \<Rightarrow> False | third # x \<Rightarrow> rejected_date third)"
  proof (cases others)
    case Nil
    show ?thesis by (rule that [of "[]" None]) (simp_all add: Nil)
  next
    case (Cons third x)
    have t: "take 1 others = [third]" by (simp add: Cons)
    show ?thesis
    proof (cases "str_contains third ''-''")
      case False
      show ?thesis
        by (rule that [of "[third]" None]) (simp_all add: t sort_args_one False Cons rejected_date_def)
    next
      case True
      show ?thesis
      proof (cases "\<exists>dt. strptime third = Inr dt")
        case False
        show ?thesis
          by (rule that [of "[]" None])
            (simp_all add: t sort_args_one True False Cons rejected_date_def del: sort_args.simps)
      next
        case ok: True
        show ?thesis
          by (rule that [of "[]" "Some third"])
            (simp_all add: t sort_args_one True ok Cons rejected_date_def del: sort_args.simps)
      qed
    qed
  qed
  have s': "sort_args (phone # take 1 others) [] None = (phone # phs, bd)"
    using sort_args_phone [OF assms(1), of "take 1 others" "[]" None] s by simp
  show ?thesis
    unfolding add_contact_def add_contact_body_eq [OF s'] Record_init_cases
    using bd by (simp add: input_error_def add_phones_first_invalid [OF assms(2)]
        del: add_phones.simps)
qed

text \<open>
  C4, amended: for every \<^verbatim>\<open>add\<close> command whose phone argument has no hyphen and fails
  \<^verbatim>\<open>validate_phone\<close>, no record is created: the state is unchanged but for the printed
  message, which is "Phone number must be 10 digits", or the message of the birthday
  when a third argument is a date that the setter of \<^verbatim>\<open>Birthday\<close> refuses.
\<close>

theorem add_invalid_phone:
  assumes "startswith command ''add ''"
    and "split command = w # nm # phone # others"
    and "\<not> str_contains phone ''-''"
    and "validate_phone (Some phone) = Inr False"
  shows "dispatch e now command st ins =
     Continue (st\<lparr>out := out st @
       [Str (if (case others of [] \<Rightarrow> False | third # x \<Rightarrow> rejected_date third)
             then birthday_msg else phone_msg)]\<rparr>) ins"
proof -
  have "do_add command st ins =
      (case add_contact (book st) nm (phone # take 1 others) of
         (b, response) \<Rightarrow> Continue (print (st\<lparr>book := b\<rparr>) response) ins)"
    unfolding do_add_def assms(2) by simp
  then show ?thesis
    unfolding startswith_add [OF assms(1)] add_contact_invalid_phone [OF assms(3,4)]
    by (simp add: print_eq)
qed

theorem add_invalid_phone_witness:
  "startswith ''add carol abcdefghij'' ''add ''
   \<and> split ''add carol abcdefghij'' = [''add'', ''carol'', ''abcdefghij'']
   \<and> validate_phone (Some ''abcdefghij'') = Inr False
   \<and> dispatch env0 noon_20_may_2024 ''add carol abcdefghij'' start []
       = Continue (start\<lparr>out := [Str phone_msg]\<rparr>) []"
proof -
  have 1: "startswith ''add carol abcdefghij'' ''add ''" by simp
  have 2: "split ''add carol abcdefghij'' = ''add'' # ''carol'' # ''abcdefghij'' # []"
    by (simp add: split_def isspace_char_def)
  have 3: "\<not> str_contains ''abcdefghij'' ''-''" by simp
  have 4: "validate_phone (Some ''abcdefghij'') = Inr False"
    by (simp add: isdigit_def isdigit_char_def isdecimal_char_def)
  show ?thesis
    using 1 2 4 add_invalid_phone [OF 1 2 3 4, of env0 noon_20_may_2024 start "[]"]
    by (simp add: start_def)
qed

text \<open>
  C4, as stated, fails for a phone argument with a hyphen: \<^verbatim>\<open>add_contact\<close> takes it for
  a birthday, \<^verbatim>\<open>strptime\<close> rejects it, the \<^verbatim>\<open>except\<close> clause passes, and the record is
  stored without a phone.
\<close>

lemma split_carol: "split ''add carol 123-456-7890'' = [''add'', ''carol'', ''123-456-7890'']"
  by (simp add: split_def isspace_char_def)

lemma strptime_phone: "strptime ''123-456-7890'' = Inl (ValueError no_match_msg)"
  by (simp add: strptime_def isdecimal_char_def)

theorem add_hyphen_phone_creates_record:
  "validate_phone (Some ''123-456-7890'') = Inr False
   \<and> dispatch env0 noon_20_may_2024 ''add carol 123-456-7890'' start []
       = Continue \<lparr>book = [(''carol'', \<lparr>name = ''carol'', phones = [], birthday = None\<rparr>)],
                    files = [], out = [Str ''Contact added successfully'']\<rparr> []"
  by (simp add: dispatch_def do_add_def split_carol add_contact_def add_contact_body_def
      strptime_phone Record_init_def input_error_def add_record_def print_def start_def)

subsection \<open>C5: \<^verbatim>\<open>add\<close> with a valid phone and a third argument\<close>

lemma valid_phone_no_hyphen:
  assumes "validate_phone (Some phone) = Inr True"
  shows "\<not> str_contains phone ''-''"
proof
  assume "str_contains phone ''-''"
  then have "CHR ''-'' \<in> set phone" by (auto simp: str_contains_iff)
  moreover have "\<forall>c \<in> set phone. isdigit_char c"
    using assms by (simp add: isdigit_def list_all_iff)
  ultimately have "isdigit_char CHR ''-''" by blast
  then show False by (simp add: isdigit_char_def isdecimal_char_def)
qed

lemma add_contact_third:
  assumes v: "validate_phone (Some phone) = Inr True"
  shows "add_contact b nm (phone # take 1 (third # others)) =
     (if str_contains third ''-'' then
        if (\<exists>dt. strptime third = Inr dt) then
          if validate_birthday third
          then (add_record b \<lparr>name = nm, phones = [Some phone], birthday = Some third\<rparr>,
                Str ''Contact added successfully'')
          else (b, Str birthday_msg)
        else (add_record b \<lparr>name = nm, phones = [Some phone], birthday = None\<rparr>,
              Str ''Contact added successfully'')
      else if validate_phone (Some third) = Inr True
        then (add_record b \<lparr>name = nm, phones = [Some phone, Some third], birthday = None\<rparr>,
              Str ''Contact added successfully'')
        else (b, Str phone_msg))"
proof -
  have t: "take 1 (third # others) = [third]" by simp
  have s: "sort_args (phone # [third]) [] None = sort_args [third] [phone] None"
    using sort_args_phone [OF valid_phone_no_hyphen [OF v], of "[third]" "[]" None] by simp
  have one: "\<And>bd. add_phones \<lparr>name = nm, phones = [], birthday = bd\<rparr> [Some phone] =
      Inr \<lparr>name = nm, phones = [Some phone], birthday = bd\<rparr>"
    using v by (simp add: add_phones_valid del: validate_phone.simps add_phones.simps)
  show ?thesis
  proof (cases "str_contains third ''-''")
    case True
    show ?thesis
    proof (cases "\<exists>dt. strptime third = Inr dt")
      case ok: True
      have s': "sort_args (phone # [third]) [] None = ([phone], Some third)"
        unfolding s sort_args_one using True ok by simp
      show ?thesis
        unfolding t add_contact_def add_contact_body_eq [OF s'] Record_init_cases
        using True ok by (simp add: input_error_def one del: add_phones.simps)
    next
      case False
      have s': "sort_args (phone # [third]) [] None = ([phone], None)"
        unfolding s sort_args_one using True False by simp
      show ?thesis
        unfolding t add_contact_def add_contact_body_eq [OF s'] Record_init_cases
        using True False by (simp add: input_error_def one del: add_phones.simps)
    qed
  next
    case False
    have s': "sort_args (phone # [third]) [] None = ([phone, third], None)"
      unfolding s sort_args_one using False by simp
    show ?thesis
    proof (cases "validate_phone (Some third) = Inr True")
      case True
      have two: "add_phones \<lparr>name = nm, phones = [], birthday = None\<rparr> [Some phone, Some third] =
          Inr \<lparr>name = nm, phones = [Some phone, Some third], birthday = None\<rparr>"
        using v True by (simp add: add_phones_valid del: validate_phone.simps add_phones.simps)
      show ?thesis
        unfolding t add_contact_def add_contact_body_eq [OF s'] Record_init_cases
        using False True by (simp add: input_error_def two del: add_phones.simps validate_phone.simps)
    next
      case bad: False
      then have f: "validate_phone (Some third) = Inr False" by auto
      have two: "add_phones \<lparr>name = nm, phones = [], birthday = None\<rparr> [Some phone, Some third] =
          Inl (ValueError phone_msg)"
        using add_phones_invalid [OF _ f, of "[Some phone, Some third]"] by simp
      show ?thesis
        unfolding t add_contact_def add_contact_body_eq [OF s'] Record_init_cases
        using False bad by (simp add: input_error_def two del: add_phones.simps validate_phone.simps)
    qed
  qed
qed

text \<open>
  C5, amended: for every \<^verbatim>\<open>add\<close> command with a name, a valid phone and a third
  argument: a third argument with a hyphen that \<^verbatim>\<open>strptime\<close> parses but the setter of
  \<^verbatim>\<open>Birthday\<close> refuses makes the command fail with the message of the birthday, and no
  record is inserted; one with a hyphen that \<^verbatim>\<open>strptime\<close> does not parse is dropped, and
  the record is inserted with the phone and no birthday; one without a hyphen is taken
  for a second phone.
\<close>

theorem add_third_token:
  assumes "startswith command ''add ''"
    and "split command = w # nm # phone # third # others"
    and "validate_phone (Some phone) = Inr True"
  shows "dispatch e now command st ins =
     (if str_contains third ''-'' then
        if (\<exists>dt. strptime third = Inr dt) then
          if validate_birthday third
          then Continue (st\<lparr>book := add_record (book st)
                              \<lparr>name = nm, phones = [Some phone], birthday = Some third\<rparr>,
                            out := out st @ [Str ''Contact added successfully'']\<rparr>) ins
          else Continue (st\<lparr>out := out st @ [Str birthday_msg]\<rparr>) ins
        else Continue (st\<lparr>book := add_record (book st)
                              \<lparr>name = nm, phones = [Some phone], birthday = None\<rparr>,
                          out := out st @ [Str ''Contact added successfully'']\<rparr>) ins
      else if validate_phone (Some third) = Inr True
        then Continue (st\<lparr>book := add_record (book st)
                              \<lparr>name = nm, phones = [Some phone, Some third], birthday = None\<rparr>,
                          out := out st @ [Str ''Contact added successfully'']\<rparr>) ins
        else Continue (st\<lparr>out := out st @ [Str phone_msg]\<rparr>) ins)"
proof -
  have "do_add command st ins =
      (case add_contact (book st) nm (phone # take 1 (third # others)) of
         (b, response) \<Rightarrow> Continue (print (st\<lparr>book := b\<rparr>) response) ins)"
    unfolding do_add_def assms(2) by simp
  then show ?thesis
    unfolding startswith_add [OF assms(1)] add_contact_third [OF assms(3)]
    by (simp add: print_eq del: validate_phone.simps)
qed

lemma split_dave1: "split ''add dave 1234567890 1800-01-01'' = ''add'' # ''dave'' # ''1234567890'' # ''1800-01-01'' # []"
  by (simp add: split_def isspace_char_def)

lemma valid_1234567890: "validate_phone (Some ''1234567890'') = Inr True"
  by (simp add: isdigit_def isdigit_char_def isdecimal_char_def)

lemma strptime_1800: "strptime ''1800-01-01'' = Inr \<lparr>year = 1800, month = 1, day = 1, usec = 0\<rparr>"
  by (simp add: strptime_def isdecimal_char_def digit_val_def datetime_new_def days_in_month_def is_leap_def)

lemma not_valid_1800: "\<not> validate_birthday ''1800-01-01''"
  by (simp add: validate_birthday_def strptime_1800 py_int_def int_strip_def int_space_char_def
      isdecimal_char_def digit_val_def)

theorem add_third_token_witness:
  "startswith ''add dave 1234567890 1800-01-01'' ''add ''
   \<and> split ''add dave 1234567890 1800-01-01'' = [''add'', ''dave'', ''1234567890'', ''1800-01-01'']
   \<and> validate_phone (Some ''1234567890'') = Inr True
   \<and> dispatch env0 noon_20_may_2024 ''add dave 1234567890 1800-01-01'' start []
       = Continue (start\<lparr>out := [Str birthday_msg]\<rparr>) []"
proof -
  have 1: "startswith ''add dave 1234567890 1800-01-01'' ''add ''" by simp
  have 4: "str_contains ''1800-01-01'' ''-''" by simp
  show ?thesis
    using 1 split_dave1 valid_1234567890
      add_third_token [OF 1 split_dave1 valid_1234567890, of env0 noon_20_may_2024 start "[]"]
    by (simp add: 4 strptime_1800 not_valid_1800 start_def del: validate_phone.simps str_contains.simps)
qed

text \<open>
  C5, as stated, fails for a birthday argument that is not a date: \<^verbatim>\<open>1990-13-45\<close> is
  not a valid birthday, the command succeeds, and the record is inserted.
\<close>

lemma split_dave2: "split ''add dave 1234567890 1990-13-45'' = [''add'', ''dave'', ''1234567890'', ''1990-13-45'']"
  by (simp add: split_def isspace_char_def)

lemma strptime_month13: "strptime ''1990-13-45'' = Inl (ValueError no_match_msg)"
  by (simp add: strptime_def isdecimal_char_def digit_val_def)

theorem add_unparsable_birthday_creates_record:
  "validate_phone (Some ''1234567890'') = Inr True
   \<and> \<not> validate_birthday ''1990-13-45''
   \<and> dispatch env0 noon_20_may_2024 ''add dave 1234567890 1990-13-45'' start []
       = Continue \<lparr>book = [(''dave'', \<lparr>name = ''dave'', phones = [Some ''1234567890''], birthday = None\<rparr>)],
                    files = [], out = [Str ''Contact added successfully'']\<rparr> []"
  by (simp add: dispatch_def do_add_def split_dave2 add_contact_def add_contact_body_def
      strptime_month13 validate_birthday_def Record_init_def input_error_def add_record_def
      print_def start_def isdigit_def isdigit_char_def isdecimal_char_def)

subsection \<open>C10: \<^verbatim>\<open>change\<close> for a contact without phones\<close>

lemma split_from_nonempty: "t \<in> set (split_from cur s) \<Longrightarrow> t \<noteq> []"
  by (induction s arbitrary: cur) (auto split: if_splits)

lemma split_nonempty: "t \<in> set (split s) \<Longrightarrow> t \<noteq> []"
  unfolding split_def by (rule split_from_nonempty)

lemma join_nonempty: "tok \<noteq> [] \<Longrightarrow> join sep (tok # toks) \<noteq> []"
  by (cases toks) auto

lemma startswith_change:
  "startswith c ''change '' \<Longrightarrow> dispatch e now c st ins = do_change c st ins"
  by (auto simp: dispatch_def startswith_iff)

lemma index_error_msg: "except_msg (IndexError index_msg) = ''Invalid input''"
  by (simp add: index_msg_def)

lemma find_Some: "find b nm = Some r \<Longrightarrow> has_key b nm \<and> map_of b nm = Some r"
  by (simp add: find_def split: if_splits)

lemma change_phone_no_phones:
  assumes "find b nm = Some r" and "phones r = []" and "phone \<noteq> []"
  shows "change_phone b nm phone = (b, Str ''Invalid input'')"
  using find_Some [OF assms(1)] assms(2,3)
  by (simp add: change_phone_def change_phone_body_def input_error_def index_error_msg
      del: except_msg.simps)

text \<open>
  C10: when the line is a \<^verbatim>\<open>change\<close> command with a name and a phone, the name is in
  the address book and its record has no phones, \<^verbatim>\<open>record.phones[0]\<close> raises
  \<^verbatim>\<open>IndexError\<close>, the wrapper turns it into "Invalid input", which is printed; the
  address book and the files are unchanged, and the loop goes on with the next line.
\<close>

theorem change_without_phones:
  assumes "startswith (lower l) ''change ''"
    and "split (lower l) = w # nm # tok # toks"
    and "find (book st) nm = Some r"
    and "phones r = []"
  shows "main_loop e i st (l # ins) =
     main_loop e (Suc i) (st\<lparr>out := out st @ [Str ''Invalid input'']\<rparr>) ins"
proof -
  have "tok \<in> set (split (lower l))" unfolding assms(2) by simp
  then have "tok \<noteq> []" by (rule split_nonempty)
  then have p: "join '' '' (tok # toks) \<noteq> []" by (rule join_nonempty)
  have "do_change (lower l) st ins =
      (case change_phone (book st) nm (join '' '' (tok # toks)) of
         (b, response) \<Rightarrow> Continue (print (st\<lparr>book := b\<rparr>) response) ins)"
    unfolding do_change_def assms(2) by simp
  then have "dispatch e (clock e i) (lower l) st ins =
      Continue (st\<lparr>out := out st @ [Str ''Invalid input'']\<rparr>) ins"
    unfolding startswith_change [OF assms(1)] change_phone_no_phones [OF assms(3,4) p]
    by (simp add: print_def)
  then show ?thesis by simp
qed

lemma lower_change: "lower ''Change bob 1234567890'' = ''change bob 1234567890''"
  by (simp add: lower_def lower_char_def upper_chars_def lower_chars_def)

lemma split_change: "split ''change bob 1234567890'' = ''change'' # ''bob'' # ''1234567890'' # []"
  by (simp add: split_def isspace_char_def)

theorem change_without_phones_witness:
  "startswith (lower ''Change bob 1234567890'') ''change ''
   \<and> split (lower ''Change bob 1234567890'') = [''change'', ''bob'', ''1234567890'']
   \<and> find [(''bob'', bob_no_phones)] ''bob'' = Some bob_no_phones
   \<and> phones bob_no_phones = []
   \<and> main_loop env0 0 (start\<lparr>book := [(''bob'', bob_no_phones)]\<rparr>) [''Change bob 1234567890'', ''exit'']
       = Exited \<lparr>book = [(''bob'', bob_no_phones)], files = [],
                  out = [Str ''Invalid input'', Str ''Good bye!'']\<rparr>"
proof -
  have 1: "startswith (lower ''Change bob 1234567890'') ''change ''"
    unfolding lower_change by simp
  have 2: "split (lower ''Change bob 1234567890'') = ''change'' # ''bob'' # ''1234567890'' # []"
    unfolding lower_change by (rule split_change)
  have 3: "find (book (start\<lparr>book := [(''bob'', bob_no_phones)]\<rparr>)) ''bob'' = Some bob_no_phones"
    by (simp add: find_def has_key_def)
  have 4: "phones bob_no_phones = []" by (simp add: bob_no_phones_def)
  have 5: "lower ''exit'' = ''exit''" by (simp add: lower_def lower_char_def upper_chars_def lower_chars_def)
  have 6: "dispatch env0 (clock env0 (Suc 0)) ''exit'' st [] = Break (print st (Str ''Good bye!''))" for st
    by (simp add: dispatch_def)
  show ?thesis
    using 1 2 3 4 change_without_phones [OF 1 2 3 4, of env0 0 "[''exit'']"]
    by (simp add: 5 6 print_def start_def del: main_loop.simps(2))
      (simp add: 5 6 print_def start_def)
qed

subsection \<open>C6: \<^verbatim>\<open>delete\<close>\<close>

text \<open>What holds of C6: \<^verbatim>\<open>AddressBook.delete\<close> leaves the book as it is when the name
  is absent, and otherwise removes the entry of that name and no other.\<close>

lemma delete_absent: "\<not> has_key b nm \<Longrightarrow> delete b nm = b"
  by (simp add: delete_def)

lemma delete_eq_filter: "delete b nm = filter (\<lambda>kv. fst kv \<noteq> nm) b"
proof (cases "has_key b nm")
  case True
  then show ?thesis by (simp add: delete_def dict_del_def)
next
  case False
  then have "\<forall>kv \<in> set b. fst kv \<noteq> nm" by (auto simp: has_key_def)
  then have "filter (\<lambda>kv. fst kv \<noteq> nm) b = b" by (simp add: filter_id_conv)
  with False show ?thesis by (simp add: delete_def)
qed

lemma find_delete: "find (delete b nm) k = (if k = nm then None else find b k)"
proof -
  have m: "map_of (filter (\<lambda>kv. fst kv \<noteq> nm) b) k = (if k = nm then None else map_of b k)"
    by (induction b) auto
  have h: "map_of c k = None \<longleftrightarrow> \<not> has_key c k" for c :: AddressBook
    by (simp add: has_key_def map_of_eq_None_iff)
  have f: "find c k = map_of c k" for c :: AddressBook
    using h [of c] by (cases "map_of c k") (auto simp: find_def)
  show ?thesis unfolding f delete_eq_filter m ..
qed

lemma startswith_delete:
  "startswith c ''delete '' \<Longrightarrow> dispatch e now c st ins = do_delete c st ins"
  by (auto simp: dispatch_def startswith_iff)

lemma delete_command:
  assumes "startswith c ''delete ''" and "split c = [w, nm]"
  shows "dispatch e now c st ins =
     Continue (st\<lparr>book := delete (book st) nm,
                 out := out st @ [Str (''Contact '' @ quoted nm @ '' deleted successfully'')]\<rparr>) ins"
  unfolding startswith_delete [OF assms(1)] do_delete_def assms(2)
  by (simp add: print_def)

lemma split_delete: "split ''delete ghost'' = [''delete'', ''ghost'']"
  by (simp add: split_def isspace_char_def)

text \<open>
  C6: the dispatcher does not report an absent name as not found. \<^verbatim>\<open>delete ghost\<close> on
  the empty address book prints that the contact was deleted successfully.
\<close>

theorem delete_absent_reports_deleted:
  "find (book start) ''ghost'' = None
   \<and> dispatch env0 noon_20_may_2024 ''delete ghost'' start []
       = Continue (start\<lparr>out := [Str (''Contact '' @ quoted ''ghost'' @ '' deleted successfully'')]\<rparr>) []"
proof -
  have "startswith ''delete ghost'' ''delete ''" by simp
  from delete_command [OF this split_delete, of env0 noon_20_may_2024 start "[]"]
  show ?thesis by (simp add: start_def find_def has_key_def delete_def)
qed

subsection \<open>C2: exceptions that end the loop\<close>

text \<open>The wrapped commands do catch: whatever its arguments, an \<^verbatim>\<open>add\<close> command ends
  in the next iteration.\<close>

lemma split_from_not_Nil:
  "cur \<noteq> [] \<or> (\<exists>c \<in> set s. \<not> isspace_char c) \<Longrightarrow> split_from cur s \<noteq> []"
  by (induction s arbitrary: cur) auto

lemma split_add_not_Nil: "startswith c ''add '' \<Longrightarrow> split c \<noteq> []"
proof -
  assume "startswith c ''add ''"
  then obtain r where "c = ''add '' @ r" by (auto simp: startswith_iff)
  then have "CHR ''a'' \<in> set c" by simp
  moreover have "\<not> isspace_char CHR ''a''" by (simp add: isspace_char_def)
  ultimately show ?thesis unfolding split_def by (intro split_from_not_Nil) blast
qed

lemma add_never_raises:
  assumes "startswith c ''add ''"
  shows "\<exists>st'. dispatch e now c st ins = Continue st' ins"
proof -
  obtain w rest where s: "split c = w # rest"
    using split_add_not_Nil [OF assms] by (cases "split c") auto
  show ?thesis
    unfolding startswith_add [OF assms] do_add_def s
    by (auto split: list.splits prod.splits)
qed

lemma lower_load: "lower ''load'' = ''load''" "lower ''save'' = ''save''"
  by (simp_all add: lower_def lower_char_def upper_chars_def lower_chars_def)

text \<open>
  C2: the branches of \<^verbatim>\<open>save\<close> and \<^verbatim>\<open>load\<close> call the file operations outside any
  \<^verbatim>\<open>try\<close>. Loading a file that does not exist raises \<^verbatim>\<open>OSError\<close>, which ends
  \<^verbatim>\<open>main\<close>: the line after it is never read and nothing is printed for the error.
\<close>

theorem load_missing_file_ends_main:
  "main env0 [] [''load'', ''missing.json'', ''hello'']
     = Crashed (OSError open_msg) \<lparr>book = [], files = [], out = [Str ''How can I help you?'']\<rparr>"
  by (simp add: main_def lower_load dispatch_def do_load_def load_from_file_def env0_def)

text \<open>The same happens when \<^verbatim>\<open>save\<close> cannot open its file, when the file to load is
  not JSON, and when \<^verbatim>\<open>change\<close> comes without a name: the unpacking of
  \<^verbatim>\<open>command.split()\<close> is outside the wrapper.\<close>

lemma save_refused_ends_main:
  "main env0 [] [''save'', '''', ''hello'']
     = Crashed (OSError open_msg) \<lparr>book = [], files = [], out = [Str ''How can I help you?'']\<rparr>"
  by (simp add: main_def lower_load dispatch_def do_save_def save_to_file_def env0_def)

lemma load_malformed_ends_main:
  "main env0 [(''book.json'', Malformed)] [''load'', ''book.json'', ''hello'']
     = Crashed (JSONDecodeError ''Expecting value'')
         \<lparr>book = [], files = [(''book.json'', Malformed)], out = [Str ''How can I help you?'']\<rparr>"
  by (simp add: main_def lower_load dispatch_def do_load_def load_from_file_def env0_def)

lemma lower_change_only: "lower ''change '' = ''change ''"
  by (simp add: lower_def lower_char_def upper_chars_def lower_chars_def)

lemma change_without_name_ends_main:
  "main env0 [] [''change '', ''hello'']
     = Crashed (ValueError (unpack_least_msg 2 1)) \<lparr>book = [], files = [], out = [Str ''How can I help you?'']\<rparr>"
  by (simp add: main_def lower_change_only dispatch_def do_change_def split_def isspace_char_def)

end
